theory Spec2Isabelle
  imports Complex_Main "HOL-Library.Word" "HOL-Library.Monad_Syntax"
begin

unbundle bit_operations_syntax

section \<open>Scalar helpers of the BDPT integrator (integrators/bdpt.cpp)\<close>

text \<open>
  Throughout, the C++ type \<open>Float\<close> is read as a real number and \<open>int\<close> as a
  mathematical integer; \<open>uint32_t\<close> is a 32-bit word, whose arithmetic wraps. Rounding,
  overflow, infinities and NaN are thus outside the model, and a division by zero, which
  IEEE arithmetic answers with an infinity or a NaN, has the value 0.
\<close>

subsection \<open>BufferIndex\<close>

text \<open>
  \<^verbatim>\<open>inline int BufferIndex(int s, int t) { return s+t-2 + t; }\<close>
\<close>

definition BufferIndex :: "int \<Rightarrow> int \<Rightarrow> int" where
  "BufferIndex s t = s + t - 2 + t"

subsection \<open>The FNV hash and the sampler seed\<close>

type_synonym uint32 = "32 word"
type_synonym byte = "8 word"

definition fnv_init :: uint32 where
  "fnv_init = 0x811C9DC5"

text \<open>
  \<open>fnv_hash\<close> consumes the four bytes of \<open>d\<close>, lowest byte first; every round
  multiplies by the prime and then xors the byte in.
\<close>

definition fnv_hash :: "uint32 \<Rightarrow> uint32 \<Rightarrow> uint32" where
  "fnv_hash h d =
     (let h1 = (h * 16777619) XOR (d AND 0xFF);
          h2 = (h1 * 16777619) XOR ((drop_bit 8 d) AND 0xFF);
          h3 = (h2 * 16777619) XOR ((drop_bit 16 d) AND 0xFF);
          h4 = (h3 * 16777619) XOR ((drop_bit 24 d) AND 0xFF)
      in h4)"

definition sampler_seed :: "uint32 \<Rightarrow> uint32 \<Rightarrow> uint32" where
  "sampler_seed pixel iter = fnv_hash (fnv_hash fnv_init pixel) iter"

text \<open>
  The call in \<open>BDPTIntegrator::Render\<close>:
  \<^verbatim>\<open>int seed = sampler_seed(tile.y * nXTiles + tile.x, sampleOffset);\<close>
  The \<open>int\<close> arguments are converted to \<open>uint32_t\<close>, which keeps their bits.
\<close>

definition tile_seed :: "uint32 \<Rightarrow> uint32 \<Rightarrow> uint32 \<Rightarrow> uint32 \<Rightarrow> uint32" where
  "tile_seed nXTiles tile_x tile_y sampleOffset =
     sampler_seed (tile_y * nXTiles + tile_x) sampleOffset"

text \<open>
  The two textbook byte hashes, written from their published definitions, against which the
  seed is compared: FNV-1 multiplies and then xors, FNV-1a xors and then multiplies.
\<close>

definition le_bytes :: "uint32 \<Rightarrow> byte list" where
  "le_bytes d = [ucast d, ucast (drop_bit 8 d), ucast (drop_bit 16 d), ucast (drop_bit 24 d)]"

definition fnv1_32 :: "byte list \<Rightarrow> uint32" where
  "fnv1_32 bs = fold (\<lambda>b h. (h * 16777619) XOR ucast b) bs 0x811C9DC5"

definition fnv1a_32 :: "byte list \<Rightarrow> uint32" where
  "fnv1a_32 bs = fold (\<lambda>b h. (h XOR ucast b) * 16777619) bs 0x811C9DC5"

subsection \<open>The rectifier's factor scheme\<close>

datatype MisModification =
  MIS_MOD_NONE | MIS_MOD_RECIPROCAL_VARIANCE | MIS_MOD_MOMENT_OVER_VARIANCE

text \<open>
  The lambda \<open>factorScheme\<close> of \<open>BDPTIntegrator::Render\<close>; it captures the
  integrator's \<open>misMod\<close>, which is its first argument here.
\<close>

definition factorScheme :: "MisModification \<Rightarrow> int \<Rightarrow> int \<Rightarrow> real \<Rightarrow> real \<Rightarrow> real" where
  "factorScheme misMod d t var mean =
     (if misMod = MIS_MOD_NONE then 1
      else if misMod = MIS_MOD_RECIPROCAL_VARIANCE then (if var = 0 then 1 else 1 / var)
      else (if var \<noteq> 0 \<and> mean \<noteq> 0 then 1 + mean * mean / var else 1))"

text \<open>The factor as the specification words it (tests \<open>var > 0\<close>).\<close>

definition factorScheme_spec :: "MisModification \<Rightarrow> int \<Rightarrow> int \<Rightarrow> real \<Rightarrow> real \<Rightarrow> real" where
  "factorScheme_spec misMod d t var mean =
     (case misMod of
        MIS_MOD_NONE \<Rightarrow> 1
      | MIS_MOD_RECIPROCAL_VARIANCE \<Rightarrow> (if var > 0 then 1 / var else 1)
      | MIS_MOD_MOMENT_OVER_VARIANCE \<Rightarrow>
          (if var > 0 \<and> mean \<noteq> 0 then 1 + mean\<^sup>2 / var else 1))"


section \<open>The strategy loop of \<open>BDPTIntegrator::Render\<close>\<close>

text \<open>
  \<open>Spectrum\<close> is declared in a header outside the integrator file. It occurs here as a
  type parameter \<open>'s\<close> of sort \<open>real_vector\<close> (\<open>real_algebra_1\<close> where two spectra
  are multiplied): \<open>Spectrum(0.f)\<close> is \<open>0\<close>, \<open>L += Lpath\<close> is \<open>+\<close>, scaling by a
  \<open>Float\<close> is \<open>*\<^sub>R\<close> and \<open>IsBlack\<close> is equality with \<open>0\<close>. Film positions
  (\<open>Point2f\<close>) are a type parameter \<open>'p\<close>.
\<close>

text \<open>The test that makes the inner loop \<open>continue\<close>.\<close>

definition skipped :: "int \<Rightarrow> int \<Rightarrow> int \<Rightarrow> bool" where
  "skipped maxDepth s t =
     (let depth = t + s - 2 in (s = 1 \<and> t = 1) \<or> depth < 0 \<or> depth > maxDepth)"

text \<open>
  What one pixel sample changes: the local accumulator \<open>L\<close>, the calls of
  \<open>film->AddSplat\<close>, of \<open>ConnectBDPT\<close> (its \<open>(s, t)\<close>), of
  \<open>rectifier->AddEstimate\<close> and of \<open>varianceEstimators[...]->AddEstimate\<close> (with the
  index used), each list in call order.
\<close>

record ('s, 'p) sample_state =
  L :: 's
  splats :: "('p \<times> 's) list"
  connects :: "(int \<times> int) list"
  estimates :: "('p \<times> int \<times> int \<times> 's \<times> 's) list"
  variances :: "(int \<times> 'p \<times> 's) list"

definition unweighted_of :: "real \<Rightarrow> 's::real_vector \<Rightarrow> 's" where
  "unweighted_of misWeight Lpath =
     (if misWeight = 0 \<or> Lpath = 0 then 0 else Lpath /\<^sub>R misWeight)"

text \<open>
  The body of the inner loop after the \<open>continue\<close> test. \<open>connect s t pFilm\<close> stands
  for the call of \<open>ConnectBDPT\<close> and gives \<open>(Lpath, pFilmNew, misWeight)\<close>; within one
  pixel sample each pair is connected at most once, so a function of the pair carries
  whatever the sampler's state contributed.
\<close>

definition strategy_body ::
  "(int \<Rightarrow> int \<Rightarrow> 'p \<Rightarrow> 's \<times> 'p \<times> real) \<Rightarrow> bool \<Rightarrow> bool \<Rightarrow> 'p \<Rightarrow> int \<Rightarrow> int \<Rightarrow>
   ('s::real_vector, 'p) sample_state \<Rightarrow> ('s, 'p) sample_state" where
  "strategy_body connect estimateFactors estimateVariances pFilm s t st =
     (case connect s t pFilm of (Lpath, pFilmNew, misWeight) \<Rightarrow>
        let st1 = st\<lparr>connects := connects st @ [(s, t)]\<rparr>;
            st2 = (if t \<noteq> 1 then st1\<lparr>L := L st1 + Lpath\<rparr>
                   else st1\<lparr>splats := splats st1 @ [(pFilmNew, Lpath)]\<rparr>);
            st3 = (if estimateFactors
                   then st2\<lparr>estimates := estimates st2 @
                          [(pFilmNew, s + t, t, unweighted_of misWeight Lpath, Lpath)]\<rparr>
                   else st2);
            st4 = (if estimateVariances
                   then st3\<lparr>variances := variances st3 @
                          [(BufferIndex s t, pFilmNew, unweighted_of misWeight Lpath)]\<rparr>
                   else st3)
        in st4)"

text \<open>\<^verbatim>\<open>for (int s = 0; s <= nLight; ++s)\<close>, entered at \<open>s\<close>.\<close>

function light_loop ::
  "(int \<Rightarrow> int \<Rightarrow> 'p \<Rightarrow> 's \<times> 'p \<times> real) \<Rightarrow> bool \<Rightarrow> bool \<Rightarrow> 'p \<Rightarrow> int \<Rightarrow> int \<Rightarrow> int \<Rightarrow> int \<Rightarrow>
   ('s::real_vector, 'p) sample_state \<Rightarrow> ('s, 'p) sample_state" where
  "light_loop connect eF eV pFilm maxDepth nLight t s st =
     (if s \<le> nLight
      then if skipped maxDepth s t
           then light_loop connect eF eV pFilm maxDepth nLight t (s + 1) st
           else light_loop connect eF eV pFilm maxDepth nLight t (s + 1)
                  (strategy_body connect eF eV pFilm s t st)
      else st)"
  by pat_completeness auto
termination
  by (relation "measure (\<lambda>(connect, eF, eV, pFilm, maxDepth, nLight, t, s, st). nat (nLight + 1 - s))")
    auto

text \<open>\<^verbatim>\<open>for (int t = 1; t <= nCamera; ++t)\<close>, entered at \<open>t\<close>.\<close>

function camera_loop ::
  "(int \<Rightarrow> int \<Rightarrow> 'p \<Rightarrow> 's \<times> 'p \<times> real) \<Rightarrow> bool \<Rightarrow> bool \<Rightarrow> 'p \<Rightarrow> int \<Rightarrow> int \<Rightarrow> int \<Rightarrow> int \<Rightarrow>
   ('s::real_vector, 'p) sample_state \<Rightarrow> ('s, 'p) sample_state" where
  "camera_loop connect eF eV pFilm maxDepth nCamera nLight t st =
     (if t \<le> nCamera
      then camera_loop connect eF eV pFilm maxDepth nCamera nLight (t + 1)
             (light_loop connect eF eV pFilm maxDepth nLight t 0 st)
      else st)"
  by pat_completeness auto
termination
  by (relation
      "measure (\<lambda>(connect, eF, eV, pFilm, maxDepth, nCamera, nLight, t, st). nat (nCamera + 1 - t))")
    auto

declare light_loop.simps [simp del] camera_loop.simps [simp del]

text \<open>"Execute all BDPT connection strategies": \<open>Spectrum L(0.f)\<close> and the two loops.\<close>

definition execute_strategies ::
  "(int \<Rightarrow> int \<Rightarrow> 'p \<Rightarrow> 's \<times> 'p \<times> real) \<Rightarrow> bool \<Rightarrow> bool \<Rightarrow> 'p \<Rightarrow> int \<Rightarrow> int \<Rightarrow> int \<Rightarrow>
   ('s::real_vector, 'p) sample_state" where
  "execute_strategies connect eF eV pFilm maxDepth nCamera nLight =
     camera_loop connect eF eV pFilm maxDepth nCamera nLight 1
       \<lparr>L = 0, splats = [], connects = [], estimates = [], variances = []\<rparr>"

text \<open>The pairs of one row and of all rows from \<open>t0\<close> on, in loop order.\<close>

definition row :: "int \<Rightarrow> int \<Rightarrow> int \<Rightarrow> int \<Rightarrow> (int \<times> int) list" where
  "row maxDepth nLight t s0 =
     map (\<lambda>s. (s, t)) (filter (\<lambda>s. \<not> skipped maxDepth s t) [s0..nLight])"

definition schedule :: "int \<Rightarrow> int \<Rightarrow> int \<Rightarrow> int \<Rightarrow> (int \<times> int) list" where
  "schedule maxDepth nCamera nLight t0 =
     concat (map (\<lambda>t. row maxDepth nLight t 0) [t0..nCamera])"

definition Lpath_of :: "(int \<Rightarrow> int \<Rightarrow> 'p \<Rightarrow> 's \<times> 'p \<times> real) \<Rightarrow> 'p \<Rightarrow> int \<times> int \<Rightarrow> 's" where
  "Lpath_of connect pFilm = (\<lambda>(s, t). fst (connect s t pFilm))"

definition splat_of :: "(int \<Rightarrow> int \<Rightarrow> 'p \<Rightarrow> 's \<times> 'p \<times> real) \<Rightarrow> 'p \<Rightarrow> int \<times> int \<Rightarrow> 'p \<times> 's" where
  "splat_of connect pFilm = (\<lambda>(s, t). (fst (snd (connect s t pFilm)), fst (connect s t pFilm)))"

section \<open>Path vertices and the two subpaths\<close>

datatype VertexType = Camera | Light | Surface | Medium

text \<open>
  The fields of \<open>Vertex\<close> that the integrator file reads and writes. The interaction data
  (the union of endpoint, medium and surface interaction) is the type parameter \<open>'i\<close>.
\<close>

record ('s, 'i) Vertex =
  vtype :: VertexType
  beta :: 's
  interaction :: 'i
  delta :: bool
  pdfFwd :: real
  pdfRev :: real

text \<open>
  The methods of \<open>Vertex\<close> that the integrator file calls are defined in the header,
  which is not part of it; they are parameters of the model. The scene, the light
  distribution and \<open>lightToIndex\<close> are the same in every call and are part of these
  functions. \<open>Pdf v prev next\<close> is \<open>v.Pdf(scene, prev, next)\<close>, where \<open>prev\<close> is a
  pointer that may be null; \<open>Vertex_f v w mode\<close> is \<open>v.f(w, mode)\<close> and
  \<open>Le v w\<close> is \<open>v.Le(scene, w)\<close>.
\<close>

datatype TransportMode = Radiance | Importance

record ('s, 'i) vertex_ops =
  Pdf :: "('s, 'i) Vertex \<Rightarrow> ('s, 'i) Vertex option \<Rightarrow> ('s, 'i) Vertex \<Rightarrow> real"
  PdfLight :: "('s, 'i) Vertex \<Rightarrow> ('s, 'i) Vertex \<Rightarrow> real"
  PdfLightOrigin :: "('s, 'i) Vertex \<Rightarrow> ('s, 'i) Vertex \<Rightarrow> real"
  IsDeltaLight :: "('s, 'i) Vertex \<Rightarrow> bool"
  IsLight :: "('s, 'i) Vertex \<Rightarrow> bool"
  IsInfiniteLight :: "('s, 'i) Vertex \<Rightarrow> bool"
  IsConnectible :: "('s, 'i) Vertex \<Rightarrow> bool"
  IsOnSurface :: "('s, 'i) Vertex \<Rightarrow> bool"
  Le :: "('s, 'i) Vertex \<Rightarrow> ('s, 'i) Vertex \<Rightarrow> 's"
  Vertex_f :: "('s, 'i) Vertex \<Rightarrow> ('s, 'i) Vertex \<Rightarrow> TransportMode \<Rightarrow> 's"

text \<open>
  The two vertex arrays are reached through pointers of which the code knows no length:
  each is the memory around its pointer, indexed as the code indexes it. A \<open>Vertex *\<close>
  into one of them is a \<open>vptr\<close>; \<open>nullptr\<close> is \<open>None\<close>.
\<close>

record ('s, 'i) subpaths =
  lightVertices :: "int \<Rightarrow> ('s, 'i) Vertex"
  cameraVertices :: "int \<Rightarrow> ('s, 'i) Vertex"

datatype vptr = LightVertex int | CameraVertex int

fun load :: "('s, 'i) subpaths \<Rightarrow> vptr \<Rightarrow> ('s, 'i) Vertex" where
  "load m (LightVertex i) = lightVertices m i"
| "load m (CameraVertex i) = cameraVertices m i"

fun store :: "vptr \<Rightarrow> ('s, 'i) Vertex \<Rightarrow> ('s, 'i) subpaths \<Rightarrow> ('s, 'i) subpaths" where
  "store (LightVertex i) v m = m\<lparr>lightVertices := (lightVertices m)(i := v)\<rparr>"
| "store (CameraVertex i) v m = m\<lparr>cameraVertices := (cameraVertices m)(i := v)\<rparr>"

text \<open>Dereferencing a pointer that may be null: \<open>None\<close> is the undefined behaviour.\<close>

definition deref :: "('s, 'i) subpaths \<Rightarrow> vptr option \<Rightarrow> ('s, 'i) Vertex option" where
  "deref m p = map_option (load m) p"

subsection \<open>Scoped assignment\<close>

text \<open>
  Modelled from the spec: the class template \<open>ScopedAssignment\<close>, declared in the header
  \<open>bdpt.h\<close>, which is missing. The specification describes it as a local snapshot of
  \<open>{pointer, old value}\<close> with a guarded restore on all exit paths: "All temporary
  overwrites are undone on exit (scoped mutation)". Constructing one on a non-null target
  saves the target's value and overwrites it; its destructor writes the saved value back;
  with a null target neither does anything. \<open>MISWeight\<close> uses it at three types: a whole
  \<open>Vertex\<close>, the \<open>bool\<close> at \<open>&v->delta\<close> and the \<open>Float\<close> at \<open>&v->pdfRev\<close>.
\<close>

datatype ('s, 'i) ScopedAssignment =
    Unbound
  | BackupVertex vptr "('s, 'i) Vertex"
  | BackupDelta vptr bool
  | BackupPdfRev vptr real

text \<open>
  Modelled from the spec: the constructor of \<open>ScopedAssignment<Vertex>\<close> (header
  missing): snapshot of the old vertex, then the overwrite.
\<close>

definition assign_vertex ::
  "vptr option \<Rightarrow> ('s, 'i) Vertex \<Rightarrow> ('s, 'i) subpaths \<Rightarrow>
   ('s, 'i) ScopedAssignment \<times> ('s, 'i) subpaths" where
  "assign_vertex target v m =
     (case target of None \<Rightarrow> (Unbound, m)
      | Some p \<Rightarrow> (BackupVertex p (load m p), store p v m))"

text \<open>
  Modelled from the spec: the constructor of \<open>ScopedAssignment<bool>\<close> (header
  missing) on the target \<open>&v->delta\<close>.
\<close>

definition assign_delta ::
  "vptr option \<Rightarrow> bool \<Rightarrow> ('s, 'i) subpaths \<Rightarrow>
   ('s, 'i) ScopedAssignment \<times> ('s, 'i) subpaths" where
  "assign_delta target b m =
     (case target of None \<Rightarrow> (Unbound, m)
      | Some p \<Rightarrow> (BackupDelta p (delta (load m p)), store p ((load m p)\<lparr>delta := b\<rparr>) m))"

text \<open>
  Modelled from the spec: the constructor of \<open>ScopedAssignment<Float>\<close> (header
  missing) on the target \<open>&v->pdfRev\<close>.
\<close>

definition assign_pdfRev ::
  "vptr option \<Rightarrow> real \<Rightarrow> ('s, 'i) subpaths \<Rightarrow>
   ('s, 'i) ScopedAssignment \<times> ('s, 'i) subpaths" where
  "assign_pdfRev target x m =
     (case target of None \<Rightarrow> (Unbound, m)
      | Some p \<Rightarrow> (BackupPdfRev p (pdfRev (load m p)), store p ((load m p)\<lparr>pdfRev := x\<rparr>) m))"

text \<open>
  Modelled from the spec: the destructor of \<open>ScopedAssignment\<close> (header missing), the
  restore of the saved value through the target.
\<close>

fun release :: "('s, 'i) ScopedAssignment \<Rightarrow> ('s, 'i) subpaths \<Rightarrow> ('s, 'i) subpaths" where
  "release Unbound m = m"
| "release (BackupVertex p v) m = store p v m"
| "release (BackupDelta p b) m = store p ((load m p)\<lparr>delta := b\<rparr>) m"
| "release (BackupPdfRev p x) m = store p ((load m p)\<lparr>pdfRev := x\<rparr>) m"

section \<open>MISWeight\<close>

datatype MisStrategy = MIS_BALANCE | MIS_POWER | MIS_UNIFORM

definition remap0 :: "real \<Rightarrow> real" where
  "remap0 f = (if f \<noteq> 0 then f else 1)"

text \<open>
  The rectifier is a pointer that may be null; of the rectifier only its method \<open>Get\<close> is
  used, so the pointer is \<open>Some Get\<close> or \<open>None\<close>. Pixel coordinates (\<open>Point2i\<close>) are
  the type parameter \<open>'x\<close>. \<open>factor\<close> is the expression
  \<^verbatim>\<open>(rectifier ? rectifier->Get(pxCoords, d, k) : 1.0f)\<close>.
\<close>

type_synonym 'x rectifier = "('x \<Rightarrow> int \<Rightarrow> int \<Rightarrow> real) option"

definition factor :: "'x rectifier \<Rightarrow> 'x \<Rightarrow> int \<Rightarrow> int \<Rightarrow> real" where
  "factor rectifier pxCoords d k =
     (case rectifier of Some Get \<Rightarrow> Get pxCoords d k | None \<Rightarrow> 1)"

text \<open>The value of \<open>effDensRatio\<close> after the two \<open>mode\<close> tests.\<close>

definition effDensRatio :: "MisStrategy \<Rightarrow> real \<Rightarrow> real" where
  "effDensRatio mode ri =
     (if mode = MIS_POWER then ri * ri else if mode = MIS_UNIFORM then 1 else ri)"

text \<open>"Look up connection vertices and their predecessors".\<close>

definition qs_ptr :: "int \<Rightarrow> vptr option" where
  "qs_ptr s = (if s > 0 then Some (LightVertex (s - 1)) else None)"

definition pt_ptr :: "int \<Rightarrow> vptr option" where
  "pt_ptr t = (if t > 0 then Some (CameraVertex (t - 1)) else None)"

definition qsMinus_ptr :: "int \<Rightarrow> vptr option" where
  "qsMinus_ptr s = (if s > 1 then Some (LightVertex (s - 2)) else None)"

definition ptMinus_ptr :: "int \<Rightarrow> vptr option" where
  "ptMinus_ptr t = (if t > 1 then Some (CameraVertex (t - 2)) else None)"

text \<open>"Update sampled vertex for s=1 or t=1 strategy" (\<open>a1\<close>).\<close>

definition update_sampled ::
  "('s, 'i) Vertex \<Rightarrow> int \<Rightarrow> int \<Rightarrow> ('s, 'i) subpaths \<Rightarrow>
   ('s, 'i) ScopedAssignment \<times> ('s, 'i) subpaths" where
  "update_sampled sampled s t m =
     (if s = 1 then assign_vertex (qs_ptr s) sampled m
      else if t = 1 then assign_vertex (pt_ptr t) sampled m
      else (Unbound, m))"

text \<open>"Mark connection vertices as non-degenerate" (\<open>a2\<close>, \<open>a3\<close>).\<close>

definition mark_pt ::
  "int \<Rightarrow> ('s, 'i) subpaths \<Rightarrow> ('s, 'i) ScopedAssignment \<times> ('s, 'i) subpaths" where
  "mark_pt t m = (if pt_ptr t \<noteq> None then assign_delta (pt_ptr t) False m else (Unbound, m))"

definition mark_qs ::
  "int \<Rightarrow> ('s, 'i) subpaths \<Rightarrow> ('s, 'i) ScopedAssignment \<times> ('s, 'i) subpaths" where
  "mark_qs s m = (if qs_ptr s \<noteq> None then assign_delta (qs_ptr s) False m else (Unbound, m))"

text \<open>"Update reverse density of vertex pt_{t-1}" (\<open>a4\<close>).\<close>

definition update_pt_pdfRev ::
  "('s, 'i) vertex_ops \<Rightarrow> int \<Rightarrow> int \<Rightarrow> ('s, 'i) subpaths \<Rightarrow>
   (('s, 'i) ScopedAssignment \<times> ('s, 'i) subpaths) option" where
  "update_pt_pdfRev E s t m =
     (if pt_ptr t \<noteq> None
      then do {
        x \<leftarrow> (if s > 0
              then do {
                qs \<leftarrow> deref m (qs_ptr s);
                pt \<leftarrow> deref m (pt_ptr t);
                Some (Pdf E qs (deref m (qsMinus_ptr s)) pt) }
              else do {
                pt \<leftarrow> deref m (pt_ptr t);
                ptMinus \<leftarrow> deref m (ptMinus_ptr t);
                Some (PdfLightOrigin E pt ptMinus) });
        Some (assign_pdfRev (pt_ptr t) x m) }
      else Some (Unbound, m))"

text \<open>"Update reverse density of vertex pt_{t-2}" (\<open>a5\<close>).\<close>

definition update_ptMinus_pdfRev ::
  "('s, 'i) vertex_ops \<Rightarrow> int \<Rightarrow> int \<Rightarrow> ('s, 'i) subpaths \<Rightarrow>
   (('s, 'i) ScopedAssignment \<times> ('s, 'i) subpaths) option" where
  "update_ptMinus_pdfRev E s t m =
     (if ptMinus_ptr t \<noteq> None
      then do {
        x \<leftarrow> (if s > 0
              then do {
                pt \<leftarrow> deref m (pt_ptr t);
                ptMinus \<leftarrow> deref m (ptMinus_ptr t);
                Some (Pdf E pt (deref m (qs_ptr s)) ptMinus) }
              else do {
                pt \<leftarrow> deref m (pt_ptr t);
                ptMinus \<leftarrow> deref m (ptMinus_ptr t);
                Some (PdfLight E pt ptMinus) });
        Some (assign_pdfRev (ptMinus_ptr t) x m) }
      else Some (Unbound, m))"

text \<open>"Update reverse density of vertices pq_{s-1} and pq_{s-2}" (\<open>a6\<close>, \<open>a7\<close>).\<close>

definition update_qs_pdfRev ::
  "('s, 'i) vertex_ops \<Rightarrow> int \<Rightarrow> int \<Rightarrow> ('s, 'i) subpaths \<Rightarrow>
   (('s, 'i) ScopedAssignment \<times> ('s, 'i) subpaths) option" where
  "update_qs_pdfRev E s t m =
     (if qs_ptr s \<noteq> None
      then do {
        pt \<leftarrow> deref m (pt_ptr t);
        qs \<leftarrow> deref m (qs_ptr s);
        Some (assign_pdfRev (qs_ptr s) (Pdf E pt (deref m (ptMinus_ptr t)) qs) m) }
      else Some (Unbound, m))"

definition update_qsMinus_pdfRev ::
  "('s, 'i) vertex_ops \<Rightarrow> int \<Rightarrow> int \<Rightarrow> ('s, 'i) subpaths \<Rightarrow>
   (('s, 'i) ScopedAssignment \<times> ('s, 'i) subpaths) option" where
  "update_qsMinus_pdfRev E s t m =
     (if qsMinus_ptr s \<noteq> None
      then do {
        qs \<leftarrow> deref m (qs_ptr s);
        qsMinus \<leftarrow> deref m (qsMinus_ptr s);
        Some (assign_pdfRev (qsMinus_ptr s) (Pdf E qs (deref m (pt_ptr t)) qsMinus) m) }
      else Some (Unbound, m))"

text \<open>
  "Temporarily update vertex properties for current strategy": the seven scoped assignments
  in the order of the source. The result lists them in the order in which their
  destructors run (the reverse of their declaration), with the memory they leave.
\<close>

definition temporary_updates ::
  "('s, 'i) vertex_ops \<Rightarrow> ('s, 'i) Vertex \<Rightarrow> int \<Rightarrow> int \<Rightarrow> ('s, 'i) subpaths \<Rightarrow>
   (('s, 'i) ScopedAssignment list \<times> ('s, 'i) subpaths) option" where
  "temporary_updates E sampled s t m0 =
     (case update_sampled sampled s t m0 of (a1, m1) \<Rightarrow>
      case mark_pt t m1 of (a2, m2) \<Rightarrow>
      case mark_qs s m2 of (a3, m3) \<Rightarrow>
      do {
        (a4, m4) \<leftarrow> update_pt_pdfRev E s t m3;
        (a5, m5) \<leftarrow> update_ptMinus_pdfRev E s t m4;
        (a6, m6) \<leftarrow> update_qs_pdfRev E s t m5;
        (a7, m7) \<leftarrow> update_qsMinus_pdfRev E s t m6;
        Some ([a7, a6, a5, a4, a3, a2, a1], m7)
      })"

text \<open>
  "Consider hypothetical connection strategies along the camera subpath":
  \<^verbatim>\<open>for (int i = t - 1; i > 0; --i)\<close>, entered at \<open>i\<close> with the running \<open>ri\<close> and
  \<open>sumRi\<close>; the result is \<open>sumRi\<close> after the loop.
\<close>

function camera_strategies ::
  "'x rectifier \<Rightarrow> MisStrategy \<Rightarrow> 'x \<Rightarrow> int \<Rightarrow> int \<Rightarrow> ('s, 'i) subpaths \<Rightarrow>
   int \<Rightarrow> real \<Rightarrow> real \<Rightarrow> real" where
  "camera_strategies rectifier mode pxCoords s t m i ri sumRi =
     (if i > 0
      then let ri' = ri * (remap0 (pdfRev (cameraVertices m i)) /
                           remap0 (pdfFwd (cameraVertices m i)));
               sumRi' = (if \<not> delta (cameraVertices m i) \<and> \<not> delta (cameraVertices m (i - 1))
                         then sumRi + effDensRatio mode ri' * factor rectifier pxCoords (s + t) i
                         else sumRi)
           in camera_strategies rectifier mode pxCoords s t m (i - 1) ri' sumRi'
      else sumRi)"
  by pat_completeness auto
termination
  by (relation "measure (\<lambda>(rectifier, mode, pxCoords, s, t, m, i, ri, sumRi). nat i)") auto

text \<open>
  "Consider hypothetical connection strategies along the light subpath":
  \<^verbatim>\<open>for (int i = s - 1; i >= 0; --i)\<close>.
\<close>

function light_strategies ::
  "('s, 'i) vertex_ops \<Rightarrow> 'x rectifier \<Rightarrow> MisStrategy \<Rightarrow> 'x \<Rightarrow> int \<Rightarrow> int \<Rightarrow>
   ('s, 'i) subpaths \<Rightarrow> int \<Rightarrow> real \<Rightarrow> real \<Rightarrow> real" where
  "light_strategies E rectifier mode pxCoords s t m i ri sumRi =
     (if i \<ge> 0
      then let ri' = ri * (remap0 (pdfRev (lightVertices m i)) /
                           remap0 (pdfFwd (lightVertices m i)));
               deltaLightvertex = (if i > 0 then delta (lightVertices m (i - 1))
                                   else IsDeltaLight E (lightVertices m 0));
               sumRi' = (if \<not> delta (lightVertices m i) \<and> \<not> deltaLightvertex
                         then sumRi + effDensRatio mode ri' *
                                factor rectifier pxCoords (s + t) (s + t - i)
                         else sumRi)
           in light_strategies E rectifier mode pxCoords s t m (i - 1) ri' sumRi'
      else sumRi)"
  by pat_completeness auto
termination
  by (relation "measure (\<lambda>(E, rectifier, mode, pxCoords, s, t, m, i, ri, sumRi). nat (i + 1))")
    auto

declare camera_strategies.simps [simp del] light_strategies.simps [simp del]

text \<open>
  \<open>MISWeight\<close> gives the weight and the memory of the two vertex arrays as it is after the
  return, when the destructors of the scoped assignments have run; \<open>None\<close> where a null
  pointer is dereferenced.

  The arithmetic is that of the real numbers. The \<open>Float\<close> of the source differs from it
  in three ways. Where \<open>stratFactorCurTech\<close> or \<open>1 + sumRi / stratFactorCurTech\<close> is
  0, the divisions of the last line give an infinity or a NaN, which the reals do not have: the
  statement on the value of the weight is made for divisors other than 0. A product of density
  ratios can leave the range of \<open>Float\<close>: it overflows to an infinity or underflows to 0,
  and the product of the two is a NaN. And every operation rounds.
\<close>

definition MISWeight ::
  "('s, 'i) vertex_ops \<Rightarrow> ('s, 'i) Vertex \<Rightarrow> int \<Rightarrow> int \<Rightarrow> 'x \<Rightarrow> 'x rectifier \<Rightarrow> MisStrategy \<Rightarrow>
   ('s, 'i) subpaths \<Rightarrow> (real \<times> ('s, 'i) subpaths) option" where
  "MISWeight E sampled s t pxCoords rectifier mode m0 =
     (if s + t = 2 then Some (1, m0)
      else do {
        (scopes, m) \<leftarrow> temporary_updates E sampled s t m0;
        let sumRi = camera_strategies rectifier mode pxCoords s t m (t - 1) 1 0;
        let sumRi = light_strategies E rectifier mode pxCoords s t m (s - 1) 1 sumRi;
        let stratFactorCurTech = factor rectifier pxCoords (s + t) t;
        Some (1 / (1 + sumRi / stratFactorCurTech), fold release scopes m)
      })"

text \<open>
  The sum that the specification describes (section 4.C.2, steps 2 and 3), over the arrays
  as the temporary updates leave them: the running ratio at \<open>i\<close> is the product of the
  remapped density ratios from \<open>i\<close> up to the connection vertex. The remapped ratio of a
  vertex is written out: a density of 0 counts as 1. So is the heuristic: the balance
  heuristic takes the running ratio as it is, the power heuristic its square, and the uniform
  heuristic 1 in its place.
\<close>

definition density_ratio :: "('s, 'i) Vertex \<Rightarrow> real" where
  "density_ratio v =
     (if pdfRev v = 0 then 1 else pdfRev v) / (if pdfFwd v = 0 then 1 else pdfFwd v)"

definition heuristic :: "MisStrategy \<Rightarrow> real \<Rightarrow> real" where
  "heuristic mode r = (case mode of MIS_BALANCE \<Rightarrow> r | MIS_POWER \<Rightarrow> r\<^sup>2 | MIS_UNIFORM \<Rightarrow> 1)"

definition camera_sum ::
  "'x rectifier \<Rightarrow> MisStrategy \<Rightarrow> 'x \<Rightarrow> int \<Rightarrow> int \<Rightarrow> ('s, 'i) subpaths \<Rightarrow> real" where
  "camera_sum rectifier mode pxCoords s t m =
     (\<Sum>i \<in> {1..t - 1}.
        if \<not> delta (cameraVertices m i) \<and> \<not> delta (cameraVertices m (i - 1))
        then heuristic mode (\<Prod>k \<in> {i..t - 1}. density_ratio (cameraVertices m k)) *
               factor rectifier pxCoords (s + t) i
        else 0)"

definition light_sum ::
  "('s, 'i) vertex_ops \<Rightarrow> 'x rectifier \<Rightarrow> MisStrategy \<Rightarrow> 'x \<Rightarrow> int \<Rightarrow> int \<Rightarrow>
   ('s, 'i) subpaths \<Rightarrow> real" where
  "light_sum E rectifier mode pxCoords s t m =
     (\<Sum>i \<in> {0..s - 1}.
        if \<not> delta (lightVertices m i) \<and>
           \<not> (if i > 0 then delta (lightVertices m (i - 1))
              else IsDeltaLight E (lightVertices m 0))
        then heuristic mode (\<Prod>k \<in> {i..s - 1}. density_ratio (lightVertices m k)) *
               factor rectifier pxCoords (s + t) (s + t - i)
        else 0)"

text \<open>
  The sum of the remapped density ratios alone, over the same hypothetical strategies: no
  heuristic is applied to the running ratio and no factor of the hypothetical strategy
  multiplies it.
\<close>

definition ratio_sum :: "('s, 'i) vertex_ops \<Rightarrow> int \<Rightarrow> int \<Rightarrow> ('s, 'i) subpaths \<Rightarrow> real" where
  "ratio_sum E s t m =
     (\<Sum>i \<in> {1..t - 1}.
        if \<not> delta (cameraVertices m i) \<and> \<not> delta (cameraVertices m (i - 1))
        then \<Prod>k \<in> {i..t - 1}. density_ratio (cameraVertices m k)
        else 0) +
     (\<Sum>i \<in> {0..s - 1}.
        if \<not> delta (lightVertices m i) \<and>
           \<not> (if i > 0 then delta (lightVertices m (i - 1))
              else IsDeltaLight E (lightVertices m 0))
        then \<Prod>k \<in> {i..s - 1}. density_ratio (lightVertices m k)
        else 0)"

section \<open>ConnectBDPT\<close>

text \<open>
  Modelled from the spec: the constructors of \<open>Vertex\<close>, which the header \<open>bdpt.h\<close>
  defines and which is missing. A new vertex has its type, its interaction and its
  throughput; it is not delta, and its densities are 0 until they are set ("a value of 0
  indicates either an unsampled reverse density or a delta event"; \<open>pdfRev\<close> is
  "populated retroactively when the next vertex is sampled"). \<open>CreateLight\<close> with a
  density stores it as \<open>pdfFwd\<close>.
\<close>

definition new_Vertex :: "VertexType \<Rightarrow> 'i \<Rightarrow> 's \<Rightarrow> ('s, 'i) Vertex" where
  "new_Vertex ty ia b =
     \<lparr>vtype = ty, beta = b, interaction = ia, delta = False, pdfFwd = 0, pdfRev = 0\<rparr>"

text \<open>
  Modelled from the spec: \<open>Vertex::CreateCamera\<close> (header missing), the constructor the
  specification calls \<open>FromCamera\<close>.
\<close>

definition CreateCamera :: "'i \<Rightarrow> 's \<Rightarrow> ('s, 'i) Vertex" where
  "CreateCamera ei b = new_Vertex Camera ei b"

text \<open>
  Modelled from the spec: \<open>Vertex::CreateLight\<close> (header missing), the constructor the
  specification calls \<open>FromLight\<close>, here with the density it is given.
\<close>

definition CreateLight :: "'i \<Rightarrow> 's \<Rightarrow> real \<Rightarrow> ('s, 'i) Vertex" where
  "CreateLight ei b pdf = (new_Vertex Light ei b)\<lparr>pdfFwd := pdf\<rparr>"

text \<open>
  What \<open>camera.Sample_Wi\<close> and the light sampling (\<open>SampleDiscrete\<close> and
  \<open>Sample_Li\<close>) give to \<open>ConnectBDPT\<close>, with the values the function then reads from the
  direction \<open>wi\<close> and the visibility tester \<open>vis\<close>.
\<close>

record ('s, 'i, 'p) camera_sample =
  Wi :: 's                 \<comment> \<open>the importance returned\<close>
  pdf_Wi :: real           \<comment> \<open>\<open>pdf\<close>\<close>
  pRaster_Wi :: 'p         \<comment> \<open>the raster position written through \<open>pRaster\<close>\<close>
  P1_Wi :: 'i              \<comment> \<open>\<open>vis.P1()\<close>\<close>
  AbsDot_Wi :: real        \<comment> \<open>\<open>AbsDot(wi, qs.ns())\<close>\<close>
  Tr_Wi :: 's              \<comment> \<open>\<open>vis.Tr(scene, sampler)\<close>\<close>

record ('s, 'i) light_sample =
  lightPdf :: real         \<comment> \<open>the probability of the light chosen by \<open>SampleDiscrete\<close>\<close>
  lightWeight :: 's        \<comment> \<open>the radiance returned by \<open>Sample_Li\<close>\<close>
  pdf_Li :: real           \<comment> \<open>\<open>pdf\<close>\<close>
  ei_Li :: 'i              \<comment> \<open>\<open>EndpointInteraction(vis.P1(), light.get())\<close>\<close>
  AbsDot_Li :: real        \<comment> \<open>\<open>AbsDot(wi, pt.ns())\<close>\<close>
  Tr_Li :: 's              \<comment> \<open>\<open>vis.Tr(scene, sampler)\<close>\<close>

text \<open>
  The other collaborators of the connection: the camera, the lights and the visibility
  tester, none of them in the integrator file. The samples are functions of the vertex
  they are taken at; the random numbers of this one call are part of them.
  \<open>LengthSquared C v0 v1\<close> is the squared length of \<open>v0.p() - v1.p()\<close>,
  \<open>AbsDot_ns C v v0 v1\<close> the absolute cosine between the shading normal of \<open>v\<close> and
  the normalised \<open>v0.p() - v1.p()\<close>, and \<open>Tr C v0 v1\<close> the transmittance of the
  visibility tester between the two vertices.
\<close>

record ('s, 'i, 'p) connect_ops =
  Sample_Wi :: "('s, 'i) Vertex \<Rightarrow> 'p \<Rightarrow> ('s, 'i, 'p) camera_sample"
  Sample_Li :: "('s, 'i) Vertex \<Rightarrow> ('s, 'i) light_sample"
  LengthSquared :: "('s, 'i) Vertex \<Rightarrow> ('s, 'i) Vertex \<Rightarrow> real"
  AbsDot_ns :: "('s, 'i) Vertex \<Rightarrow> ('s, 'i) Vertex \<Rightarrow> ('s, 'i) Vertex \<Rightarrow> real"
  Tr :: "('s, 'i) Vertex \<Rightarrow> ('s, 'i) Vertex \<Rightarrow> 's"

text \<open>The geometry term \<open>G\<close> between two vertices.\<close>

definition G ::
  "('s::real_vector, 'i) vertex_ops \<Rightarrow> ('s, 'i, 'p) connect_ops \<Rightarrow> ('s, 'i) Vertex \<Rightarrow>
   ('s, 'i) Vertex \<Rightarrow> 's" where
  "G E C v0 v1 =
     (let g = 1 / LengthSquared C v0 v1;
          g = (if IsOnSurface E v0 then g * AbsDot_ns C v0 v0 v1 else g);
          g = (if IsOnSurface E v1 then g * AbsDot_ns C v1 v0 v1 else g)
      in g *\<^sub>R Tr C v0 v1)"

text \<open>
  "Perform connection and write contribution to L": the four cases between the guard and
  the statistics. The result is the unweighted contribution \<open>L\<close>, the local \<open>sampled\<close>
  and the raster position behind \<open>pRaster\<close>. \<open>sampled0\<close> is the default-constructed
  \<open>Vertex sampled\<close>.
\<close>

definition connection ::
  "('s::real_algebra_1, 'i) vertex_ops \<Rightarrow> ('s, 'i, 'p) connect_ops \<Rightarrow> ('s, 'i) Vertex \<Rightarrow>
   int \<Rightarrow> int \<Rightarrow> 'p \<Rightarrow> ('s, 'i) subpaths \<Rightarrow> 's \<times> ('s, 'i) Vertex \<times> 'p" where
  "connection E C sampled0 s t pRaster m =
     (if s = 0 then
        (let pt = cameraVertices m (t - 1)
         in ((if IsLight E pt then Le E pt (cameraVertices m (t - 2)) * beta pt else 0),
             sampled0, pRaster))
      else if t = 1 then
        (let qs = lightVertices m (s - 1)
         in if IsConnectible E qs then
              (let cs = Sample_Wi C qs pRaster
               in if pdf_Wi cs > 0 \<and> Wi cs \<noteq> 0 then
                    (let sampled = CreateCamera (P1_Wi cs) (Wi cs /\<^sub>R pdf_Wi cs);
                         L1 = beta qs * Vertex_f E qs sampled Importance * beta sampled;
                         L2 = (if IsOnSurface E qs then AbsDot_Wi cs *\<^sub>R L1 else L1);
                         L3 = (if L2 \<noteq> 0 then L2 * Tr_Wi cs else L2)
                     in (L3, sampled, pRaster_Wi cs))
                  else (0, sampled0, pRaster_Wi cs))
            else (0, sampled0, pRaster))
      else if s = 1 then
        (let pt = cameraVertices m (t - 1)
         in if IsConnectible E pt then
              (let ls = Sample_Li C pt
               in if pdf_Li ls > 0 \<and> lightWeight ls \<noteq> 0 then
                    (let sampled1 = CreateLight (ei_Li ls)
                                      (lightWeight ls /\<^sub>R (pdf_Li ls * lightPdf ls)) 0;
                         sampled = sampled1\<lparr>pdfFwd := PdfLightOrigin E sampled1 pt\<rparr>;
                         L1 = beta pt * Vertex_f E pt sampled Radiance * beta sampled;
                         L2 = (if IsOnSurface E pt then AbsDot_Li ls *\<^sub>R L1 else L1);
                         L3 = (if L2 \<noteq> 0 then L2 * Tr_Li ls else L2)
                     in (L3, sampled, pRaster))
                  else (0, sampled0, pRaster))
            else (0, sampled0, pRaster))
      else
        (let qs = lightVertices m (s - 1); pt = cameraVertices m (t - 1)
         in if IsConnectible E qs \<and> IsConnectible E pt then
              (let L1 = beta qs * Vertex_f E qs pt Importance * Vertex_f E pt qs Radiance * beta pt;
                   L2 = (if L1 \<noteq> 0 then L1 * G E C qs pt else L1)
               in (L2, sampled0, pRaster))
            else (0, sampled0, pRaster)))"

text \<open>The statistics counters that \<open>ConnectBDPT\<close> updates.\<close>

record path_stats =
  totalPaths :: nat
  zeroRadiancePaths :: nat
  pathLength :: "int list"

text \<open>
  \<open>ConnectBDPT\<close>. \<open>misWeightPtr\<close> is the \<open>Float\<close> behind the pointer, \<open>None\<close> for a
  null pointer; \<open>px\<close> is the conversion \<open>Point2i(pRaster->x, pRaster->y)\<close>. The result
  is the returned spectrum, the position behind \<open>pRaster\<close>, the \<open>Float\<close> behind
  \<open>misWeightPtr\<close>, the vertex arrays and the statistics after the call.
\<close>

definition ConnectBDPT ::
  "('s::real_algebra_1, 'i) vertex_ops \<Rightarrow> ('s, 'i, 'p) connect_ops \<Rightarrow> ('s, 'i) Vertex \<Rightarrow>
   ('p \<Rightarrow> 'x) \<Rightarrow> int \<Rightarrow> int \<Rightarrow> 'p \<Rightarrow> real option \<Rightarrow> 'x rectifier \<Rightarrow> MisStrategy \<Rightarrow>
   ('s, 'i) subpaths \<Rightarrow> path_stats \<Rightarrow>
   ('s \<times> 'p \<times> real option \<times> ('s, 'i) subpaths \<times> path_stats) option" where
  "ConnectBDPT E C sampled0 px s t pRaster misWeightPtr rectifier misStrategy m st =
     (if t > 1 \<and> s \<noteq> 0 \<and> vtype (cameraVertices m (t - 1)) = Light
      then Some (0, pRaster, misWeightPtr, m, st)
      else
        case connection E C sampled0 s t pRaster m of (Lc, sampled, pRaster') \<Rightarrow>
          let st1 = st\<lparr>totalPaths := totalPaths st + 1\<rparr>;
              st2 = (if Lc = 0 then st1\<lparr>zeroRadiancePaths := zeroRadiancePaths st1 + 1\<rparr>
                     else st1);
              st3 = st2\<lparr>pathLength := pathLength st2 @ [s + t - 2]\<rparr>
          in do {
            (misWeight, m') \<leftarrow>
              (if Lc = 0 then Some (0, m)
               else MISWeight E sampled s t (px pRaster') rectifier misStrategy m);
            Some (misWeight *\<^sub>R Lc, pRaster',
                  (case misWeightPtr of None \<Rightarrow> None | Some old \<Rightarrow> Some misWeight),
                  m', st3)
          })"

text \<open>The guard "Ignore invalid connections related to infinite area lights".\<close>

definition rejected :: "int \<Rightarrow> int \<Rightarrow> ('s, 'i) subpaths \<Rightarrow> bool" where
  "rejected s t m = (t > 1 \<and> s \<noteq> 0 \<and> vtype (cameraVertices m (t - 1)) = Light)"

section \<open>RandomWalk\<close>

text \<open>
  \<^verbatim>\<open>Float CorrectShadingNormal(isect, wo, wi, mode)\<close>; the four absolute dot products it
  takes from its arguments are \<open>AbsDot(wo, isect.shading.n)\<close>, \<open>AbsDot(wi, isect.n)\<close>,
  \<open>AbsDot(wo, isect.n)\<close> and \<open>AbsDot(wi, isect.shading.n)\<close>.
\<close>

definition CorrectShadingNormal :: "TransportMode \<Rightarrow> real \<Rightarrow> real \<Rightarrow> real \<Rightarrow> real \<Rightarrow> real" where
  "CorrectShadingNormal mode wo_ns wi_n wo_n wi_ns =
     (if mode = Importance
      then (let num = wo_ns * wi_n; denom = wo_n * wi_ns
            in if denom = 0 then 0 else num / denom)
      else 1)"

text \<open>
  Modelled from the spec: \<open>Vertex::ConvertDensity\<close> and the constructors
  \<open>CreateSurface\<close> and \<open>CreateMedium\<close>, all defined in the missing header \<open>bdpt.h\<close>.
  "Surface/medium constructors convert the solid-angle density \<open>pdfFwd\<close> into area
  density using the standard geometric Jacobian"; "this conversion is exposed as
  \<open>ConvertDensity\<close>". The Jacobian between two vertices is the parameter \<open>J\<close>;
  \<open>ConvertDensity J v pdf next\<close> is \<open>v.ConvertDensity(pdf, next)\<close>.
\<close>

definition ConvertDensity ::
  "(('s, 'i) Vertex \<Rightarrow> ('s, 'i) Vertex \<Rightarrow> real) \<Rightarrow> ('s, 'i) Vertex \<Rightarrow> real \<Rightarrow> ('s, 'i) Vertex \<Rightarrow> real"
  where
  "ConvertDensity J v pdf next = pdf * J v next"

text \<open>
  Modelled from the spec: \<open>Vertex::CreateSurface\<close> (header missing), the specification's
  \<open>FromSurface(prev, isect, \<beta>, pdfFwd)\<close>.
\<close>

definition CreateSurface ::
  "(('s, 'i) Vertex \<Rightarrow> ('s, 'i) Vertex \<Rightarrow> real) \<Rightarrow> 'i \<Rightarrow> 's \<Rightarrow> real \<Rightarrow> ('s, 'i) Vertex \<Rightarrow>
   ('s, 'i) Vertex" where
  "CreateSurface J si b pdf prev =
     (let v = new_Vertex Surface si b in v\<lparr>pdfFwd := ConvertDensity J prev pdf v\<rparr>)"

text \<open>
  Modelled from the spec: \<open>Vertex::CreateMedium\<close> (header missing), the specification's
  \<open>FromMedium(prev, mi, \<beta>, pdfFwd)\<close>.
\<close>

definition CreateMedium ::
  "(('s, 'i) Vertex \<Rightarrow> ('s, 'i) Vertex \<Rightarrow> real) \<Rightarrow> 'i \<Rightarrow> 's \<Rightarrow> real \<Rightarrow> ('s, 'i) Vertex \<Rightarrow>
   ('s, 'i) Vertex" where
  "CreateMedium J mi b pdf prev =
     (let v = new_Vertex Medium mi b in v\<lparr>pdfFwd := ConvertDensity J prev pdf v\<rparr>)"

text \<open>
  What one iteration of the loop of \<open>RandomWalk\<close> obtains from the scene, the medium, the
  phase function, the BSDF and the sampler. The scene and the sampler are not part of the
  integrator file; the walk is modelled for every sequence of such observations, one for
  each iteration.
\<close>

record ('s, 'i) observation =
  Intersect :: "'i option"
    \<comment> \<open>\<open>scene.Intersect(ray, &isect)\<close>: the surface interaction, when one is found\<close>
  MediumSample :: "('s \<times> 'i option) option"
    \<comment> \<open>\<open>None\<close> when \<open>ray.medium\<close> is null; else what \<open>Sample\<close> returns and the
        medium interaction \<open>mi\<close> when it is valid\<close>
  Sample_p :: real
    \<comment> \<open>\<open>mi.phase->Sample_p(...)\<close>\<close>
  EscapedRay :: 'i
    \<comment> \<open>\<open>EndpointInteraction(ray)\<close>\<close>
  bsdf :: bool
    \<comment> \<open>\<open>isect.bsdf\<close> is not null after \<open>ComputeScatteringFunctions\<close>\<close>
  Sample_f :: 's
    \<comment> \<open>the value of \<open>isect.bsdf->Sample_f(...)\<close>\<close>
  Sample_f_pdf :: real
    \<comment> \<open>the density it writes to \<open>pdfFwd\<close>\<close>
  Sample_f_specular :: bool
    \<comment> \<open>\<open>type & BSDF_SPECULAR\<close>\<close>
  bsdf_Pdf :: real
    \<comment> \<open>\<open>isect.bsdf->Pdf(wi, wo, BSDF_ALL)\<close>\<close>
  AbsDot_wo_ns :: real
  AbsDot_wi_n :: real
  AbsDot_wo_n :: real
  AbsDot_wi_ns :: real

text \<open>
  The variables of the loop. \<open>path\<close> is the memory around the pointer \<open>path\<close>, indexed
  as the code indexes it (\<open>path[bounces - 1]\<close> is \<open>path (- 1)\<close> in the first iteration);
  \<open>step_no\<close> counts the iterations and stands for the ray and the state of the sampler.
\<close>

record ('s, 'i) walk_state =
  step_no :: nat
  bounces :: int
  w_beta :: 's
  w_pdfFwd :: real
  w_pdfRev :: real
  path :: "int \<Rightarrow> ('s, 'i) Vertex"

datatype ('s, 'i) walk_step =
    Return int "int \<Rightarrow> ('s, 'i) Vertex"
  | Again "('s, 'i) walk_state"

text \<open>
  "Compute reverse area density at preceding vertex":
  \<^verbatim>\<open>prev.pdfRev = vertex.ConvertDensity(pdfRev, prev)\<close> with \<open>vertex = path[i]\<close> and
  \<open>prev = path[i - 1]\<close>.
\<close>

definition set_prev_pdfRev ::
  "(('s, 'i) Vertex \<Rightarrow> ('s, 'i) Vertex \<Rightarrow> real) \<Rightarrow> int \<Rightarrow> real \<Rightarrow> (int \<Rightarrow> ('s, 'i) Vertex) \<Rightarrow>
   int \<Rightarrow> ('s, 'i) Vertex" where
  "set_prev_pdfRev J i x p =
     p(i - 1 := (p (i - 1))\<lparr>pdfRev := ConvertDensity J (p i) x (p (i - 1))\<rparr>)"

text \<open>
  One iteration of \<^verbatim>\<open>while (true)\<close>: \<open>Return\<close> where the source leaves the loop by
  \<open>break\<close>, with the value of \<open>bounces\<close>; \<open>Again\<close> where it goes round, by
  \<open>continue\<close> or at the end of the body.
\<close>

definition RandomWalk_iteration ::
  "(('s::real_algebra_1, 'i) Vertex \<Rightarrow> ('s, 'i) Vertex \<Rightarrow> real) \<Rightarrow> (nat \<Rightarrow> ('s, 'i) observation) \<Rightarrow>
   int \<Rightarrow> TransportMode \<Rightarrow> ('s, 'i) walk_state \<Rightarrow> ('s, 'i) walk_step" where
  "RandomWalk_iteration J W maxDepth mode st =
     (let ob = W (step_no st);
          i = bounces st;
          b = (case MediumSample ob of None \<Rightarrow> w_beta st | Some (w, mi) \<Rightarrow> w_beta st * w);
          mi = (case MediumSample ob of None \<Rightarrow> None | Some (w, mi) \<Rightarrow> mi)
      in if b = 0 then Return i (path st)
         else case mi of
           Some mi \<Rightarrow>
             (let p1 = (path st)(i := CreateMedium J mi b (w_pdfFwd st) (path st (i - 1)))
              in if i + 1 \<ge> maxDepth then Return (i + 1) p1
                 else (let pd = Sample_p ob
                       in Again \<lparr>step_no = step_no st + 1, bounces = i + 1, w_beta = b,
                                 w_pdfFwd = pd, w_pdfRev = pd,
                                 path = set_prev_pdfRev J i pd p1\<rparr>))
         | None \<Rightarrow>
             (case Intersect ob of
                None \<Rightarrow>
                  (if mode = Radiance
                   then Return (i + 1)
                          ((path st)(i := CreateLight (EscapedRay ob) b (w_pdfFwd st)))
                   else Return i (path st))
              | Some isect \<Rightarrow>
                  if \<not> bsdf ob then Again (st\<lparr>step_no := step_no st + 1, w_beta := b\<rparr>)
                  else
                    (let p1 = (path st)(i := CreateSurface J isect b (w_pdfFwd st) (path st (i - 1)))
                     in if i + 1 \<ge> maxDepth then Return (i + 1) p1
                        else if Sample_f ob = 0 \<or> Sample_f_pdf ob = 0 then Return (i + 1) p1
                        else
                          (let b2 = b * ((AbsDot_wi_ns ob / Sample_f_pdf ob) *\<^sub>R Sample_f ob);
                               specular = Sample_f_specular ob;
                               p2 = (if specular then p1(i := (p1 i)\<lparr>delta := True\<rparr>) else p1);
                               pdfF = (if specular then 0 else Sample_f_pdf ob);
                               pdfR = (if specular then 0 else bsdf_Pdf ob);
                               b3 = CorrectShadingNormal mode (AbsDot_wo_ns ob) (AbsDot_wi_n ob)
                                      (AbsDot_wo_n ob) (AbsDot_wi_ns ob) *\<^sub>R b2
                           in Again \<lparr>step_no = step_no st + 1, bounces = i + 1, w_beta = b3,
                                     w_pdfFwd = pdfF, w_pdfRev = pdfR,
                                     path = set_prev_pdfRev J i pdfR p2\<rparr>))))"

text \<open>The loop: \<open>None\<close> when it never leaves.\<close>

partial_function (option) RandomWalk_loop ::
  "(('s::real_algebra_1, 'i) Vertex \<Rightarrow> ('s, 'i) Vertex \<Rightarrow> real) \<Rightarrow> (nat \<Rightarrow> ('s, 'i) observation) \<Rightarrow>
   int \<Rightarrow> TransportMode \<Rightarrow> ('s, 'i) walk_state \<Rightarrow> (int \<times> (int \<Rightarrow> ('s, 'i) Vertex)) option" where
  "RandomWalk_loop J W maxDepth mode st =
     (case RandomWalk_iteration J W maxDepth mode st of
        Return n p \<Rightarrow> Some (n, p)
      | Again st' \<Rightarrow> RandomWalk_loop J W maxDepth mode st')"

declare RandomWalk_loop.simps [code]

text \<open>
  \<open>RandomWalk\<close> gives the number of bounces it returns and the memory around \<open>path\<close>
  after the call.
\<close>

definition RandomWalk ::
  "(('s::real_algebra_1, 'i) Vertex \<Rightarrow> ('s, 'i) Vertex \<Rightarrow> real) \<Rightarrow> (nat \<Rightarrow> ('s, 'i) observation) \<Rightarrow>
   's \<Rightarrow> real \<Rightarrow> int \<Rightarrow> TransportMode \<Rightarrow> (int \<Rightarrow> ('s, 'i) Vertex) \<Rightarrow>
   (int \<times> (int \<Rightarrow> ('s, 'i) Vertex)) option" where
  "RandomWalk J W b pdf maxDepth mode p =
     (if maxDepth = 0 then Some (0, p)
      else RandomWalk_loop J W maxDepth mode
             \<lparr>step_no = 0, bounces = 0, w_beta = b, w_pdfFwd = pdf, w_pdfRev = 0, path = p\<rparr>)"

text \<open>
  An iteration that can go round without a new vertex: the ray meets a surface without a
  BSDF, the boundary of a medium.
\<close>

definition passes_boundary :: "('s, 'i) observation \<Rightarrow> bool" where
  "passes_boundary ob = (Intersect ob \<noteq> None \<and> \<not> bsdf ob)"

text \<open>The ray never meets such boundaries for ever.\<close>

definition boundaries_end :: "(nat \<Rightarrow> ('s, 'i) observation) \<Rightarrow> bool" where
  "boundaries_end W = (\<forall>k. \<exists>j\<ge>k. \<not> passes_boundary (W j))"

text \<open>
  How deltaness shows in the densities of a path of \<open>n\<close> vertices: next to a vertex marked
  delta, the \<open>pdfRev\<close> of its predecessor and the \<open>pdfFwd\<close> of its successor are 0.
\<close>

definition delta_neighbours :: "int \<Rightarrow> (int \<Rightarrow> ('s, 'i) Vertex) \<Rightarrow> bool" where
  "delta_neighbours n p =
     (\<forall>k. 0 \<le> k \<and> k < n \<and> delta (p k) \<longrightarrow>
        pdfRev (p (k - 1)) = 0 \<and> (k + 1 < n \<longrightarrow> pdfFwd (p (k + 1)) = 0))"

text \<open>What holds of the variables at the head of the loop.\<close>

definition walk_inv :: "('s, 'i) walk_state \<Rightarrow> bool" where
  "walk_inv st =
     (delta_neighbours (bounces st) (path st) \<and>
      (1 \<le> bounces st \<and> delta (path st (bounces st - 1)) \<longrightarrow> w_pdfFwd st = 0))"

text \<open>
  What \<open>RandomWalk_loop\<close> promises for the state it is entered with: the number of
  bounces, the entries of \<open>path\<close> it leaves alone, the one entry of which it changes
  nothing but \<open>pdfRev\<close>, and the densities next to delta vertices.
\<close>

definition walk_result ::
  "int \<Rightarrow> ('s, 'i) walk_state \<Rightarrow> int \<Rightarrow> (int \<Rightarrow> ('s, 'i) Vertex) \<Rightarrow> bool" where
  "walk_result maxDepth st n p =
     (bounces st \<le> n \<and> n \<le> maxDepth \<and>
      (\<forall>k. k < bounces st - 1 \<or> n \<le> k \<longrightarrow> p k = path st k) \<and>
      p (bounces st - 1) = (path st (bounces st - 1))\<lparr>pdfRev := pdfRev (p (bounces st - 1))\<rparr> \<and>
      delta_neighbours n p)"

text \<open>The iteration samples a specular lobe of the BSDF at a surface vertex.\<close>

definition specular_bounce :: "('s, 'i) observation \<Rightarrow> bool" where
  "specular_bounce ob =
     ((case MediumSample ob of None \<Rightarrow> True | Some (w, mi) \<Rightarrow> mi = None) \<and>
      Sample_f_specular ob)"

section \<open>GenerateCameraSubpath and GenerateLightSubpath\<close>

text \<open>
  \<open>RandomWalk\<close> is called on \<open>path + 1\<close>: it sees the memory shifted by one entry.
\<close>

definition advance :: "(int \<Rightarrow> 'a) \<Rightarrow> int \<Rightarrow> 'a" where
  "advance p = (\<lambda>k. p (k + 1))"

definition retreat :: "(int \<Rightarrow> 'a) \<Rightarrow> int \<Rightarrow> 'a" where
  "retreat q = (\<lambda>k. q (k - 1))"

text \<open>
  \<open>GenerateCameraSubpath\<close>. \<open>ei\<close> is \<open>EndpointInteraction(&camera, ray)\<close>, \<open>b\<close> the
  value of \<open>camera.GenerateRayDifferential\<close>, \<open>pdfDir\<close> comes from \<open>camera.Pdf_We\<close>.
\<close>

definition GenerateCameraSubpath ::
  "(('s::real_algebra_1, 'i) Vertex \<Rightarrow> ('s, 'i) Vertex \<Rightarrow> real) \<Rightarrow> (nat \<Rightarrow> ('s, 'i) observation) \<Rightarrow>
   int \<Rightarrow> 'i \<Rightarrow> 's \<Rightarrow> real \<Rightarrow> (int \<Rightarrow> ('s, 'i) Vertex) \<Rightarrow>
   (int \<times> (int \<Rightarrow> ('s, 'i) Vertex)) option" where
  "GenerateCameraSubpath J W maxDepth ei b pdfDir p =
     (if maxDepth = 0 then Some (0, p)
      else (let p0 = p(0 := CreateCamera ei b)
            in case RandomWalk J W b pdfDir (maxDepth - 1) Radiance (advance p0) of
                 None \<Rightarrow> None
               | Some (n, q) \<Rightarrow> Some (n + 1, retreat q)))"

text \<open>
  What \<open>GenerateLightSubpath\<close> obtains from sampling the light (\<open>SampleDiscrete\<close> and
  \<open>Sample_Le\<close>) and from the values it then reads from the ray.
\<close>

record ('s, 'i) emission =
  em_lightPdf :: real      \<comment> \<open>\<open>lightPdf\<close>, the probability of the light chosen\<close>
  em_Le :: 's              \<comment> \<open>\<open>Le\<close>\<close>
  em_pdfPos :: real        \<comment> \<open>\<open>pdfPos\<close>\<close>
  em_pdfDir :: real        \<comment> \<open>\<open>pdfDir\<close>\<close>
  em_light :: 'i           \<comment> \<open>the endpoint interaction of \<open>light\<close>, \<open>ray\<close> and \<open>nLight\<close>\<close>
  em_AbsDot :: real        \<comment> \<open>\<open>AbsDot(nLight, ray.d)\<close>\<close>
  em_AbsDot_ng :: "('s, 'i) Vertex \<Rightarrow> real"
                           \<comment> \<open>\<open>AbsDot(ray.d, v.ng())\<close> for a vertex \<open>v\<close>\<close>
  em_InfiniteLightDensity :: real
                           \<comment> \<open>\<open>InfiniteLightDensity(scene, lightDistr, lightToIndex, ray.d)\<close>\<close>

text \<open>"Correct subpath sampling densities for infinite area lights".\<close>

definition correct_infinite ::
  "('s, 'i) vertex_ops \<Rightarrow> ('s, 'i) emission \<Rightarrow> int \<Rightarrow> (int \<Rightarrow> ('s, 'i) Vertex) \<Rightarrow>
   int \<Rightarrow> ('s, 'i) Vertex" where
  "correct_infinite E em nVertices p =
     (if IsInfiniteLight E (p 0)
      then (let p1 = (if nVertices > 0
                      then (let q = p(1 := (p 1)\<lparr>pdfFwd := em_pdfPos em\<rparr>)
                            in if IsOnSurface E (q 1)
                               then q(1 := (q 1)\<lparr>pdfFwd := pdfFwd (q 1) * em_AbsDot_ng em (q 1)\<rparr>)
                               else q)
                      else p)
            in p1(0 := (p1 0)\<lparr>pdfFwd := em_InfiniteLightDensity em\<rparr>))
      else p)"

definition GenerateLightSubpath ::
  "(('s::real_algebra_1, 'i) Vertex \<Rightarrow> ('s, 'i) Vertex \<Rightarrow> real) \<Rightarrow> (nat \<Rightarrow> ('s, 'i) observation) \<Rightarrow>
   ('s, 'i) vertex_ops \<Rightarrow> int \<Rightarrow> ('s, 'i) emission \<Rightarrow> (int \<Rightarrow> ('s, 'i) Vertex) \<Rightarrow>
   (int \<times> (int \<Rightarrow> ('s, 'i) Vertex)) option" where
  "GenerateLightSubpath J W E maxDepth em p =
     (if maxDepth = 0 then Some (0, p)
      else if em_pdfPos em = 0 \<or> em_pdfDir em = 0 \<or> em_Le em = 0 then Some (0, p)
      else (let p0 = p(0 := CreateLight (em_light em) (em_Le em) (em_pdfPos em * em_lightPdf em));
                b = (em_AbsDot em / (em_lightPdf em * em_pdfPos em * em_pdfDir em)) *\<^sub>R em_Le em
            in case RandomWalk J W b (em_pdfDir em) (maxDepth - 1) Importance (advance p0) of
                 None \<Rightarrow> None
               | Some (nVertices, q) \<Rightarrow>
                   Some (nVertices + 1, correct_infinite E em nVertices (retreat q))))"

section \<open>Predicates and example values used in the statements\<close>

text \<open>
  The pairs \<open>(s, t)\<close> at which \<open>MISWeight\<close> dereferences a null pointer: \<open>pt\<close> for a
  light vertex without a camera vertex, \<open>ptMinus\<close> for a lone camera vertex.
\<close>

definition null_dereferenced :: "int \<Rightarrow> int \<Rightarrow> bool" where
  "null_dereferenced s t = (s + t \<noteq> 2 \<and> ((s > 0 \<and> t \<le> 0) \<or> (s \<le> 0 \<and> t = 1)))"

definition vertex_nonneg :: "('s, 'i) Vertex \<Rightarrow> bool" where
  "vertex_nonneg v = (0 \<le> pdfFwd v \<and> 0 \<le> pdfRev v)"

text \<open>The vertices of the two subpaths of a strategy \<open>(s, t)\<close> have non-negative densities.\<close>

definition densities_nonneg :: "int \<Rightarrow> int \<Rightarrow> ('s, 'i) subpaths \<Rightarrow> bool" where
  "densities_nonneg s t m =
     ((\<forall>i \<in> {0..s - 1}. vertex_nonneg (lightVertices m i)) \<and>
      (\<forall>i \<in> {0..t - 1}. vertex_nonneg (cameraVertices m i)))"

text \<open>The density methods of \<open>Vertex\<close> return densities: numbers that are not negative.\<close>

definition ops_nonneg :: "('s, 'i) vertex_ops \<Rightarrow> bool" where
  "ops_nonneg E =
     ((\<forall>v prev next. 0 \<le> Pdf E v prev next) \<and>
      (\<forall>v next. 0 \<le> PdfLight E v next) \<and>
      (\<forall>v next. 0 \<le> PdfLightOrigin E v next))"

text \<open>The statistics after the three counter updates of \<open>ConnectBDPT\<close>.\<close>

definition counted :: "'s::zero \<Rightarrow> int \<Rightarrow> int \<Rightarrow> path_stats \<Rightarrow> path_stats" where
  "counted Lc s t st =
     st\<lparr>totalPaths := totalPaths st + 1,
        zeroRadiancePaths := (if Lc = 0 then zeroRadiancePaths st + 1 else zeroRadiancePaths st),
        pathLength := pathLength st @ [s + t - 2]\<rparr>"

text \<open>Concrete collaborators and subpaths, with one-channel spectra.\<close>

definition example_ops :: "(real, unit) vertex_ops" where
  "example_ops =
     \<lparr>Pdf = (\<lambda>v prev next. 1 / 2), PdfLight = (\<lambda>v next. 1 / 4),
      PdfLightOrigin = (\<lambda>v next. 1 / 3), IsDeltaLight = (\<lambda>v. False),
      IsLight = (\<lambda>v. vtype v = Light), IsInfiniteLight = (\<lambda>v. False),
      IsConnectible = (\<lambda>v. True), IsOnSurface = (\<lambda>v. False),
      Le = (\<lambda>v prev. 1), Vertex_f = (\<lambda>v w mode. 1)\<rparr>"

definition example_vertex :: "(real, unit) Vertex" where
  "example_vertex =
     \<lparr>vtype = Surface, beta = 1, interaction = (), delta = False, pdfFwd = 1, pdfRev = 2\<rparr>"

definition example_subpaths :: "(real, unit) subpaths" where
  "example_subpaths =
     \<lparr>lightVertices = (\<lambda>i. example_vertex), cameraVertices = (\<lambda>i. example_vertex)\<rparr>"

text \<open>
  Camera vertex 1 has the forward density 0, and a rectifier whose factor is 1 for the
  strategy \<open>t = 2\<close> and 3 for the others.
\<close>

definition zero_density_subpaths :: "(real, unit) subpaths" where
  "zero_density_subpaths =
     \<lparr>lightVertices = (\<lambda>i. example_vertex),
      cameraVertices = (\<lambda>i. if i = 1 then example_vertex\<lparr>pdfFwd := 0\<rparr> else example_vertex)\<rparr>"

definition uneven_factors :: "unit \<Rightarrow> int \<Rightarrow> int \<Rightarrow> real" where
  "uneven_factors pxCoords d k = (if k = 2 then 1 else 3)"

definition example_connect_ops :: "(real, unit, unit) connect_ops" where
  "example_connect_ops =
     \<lparr>Sample_Wi = (\<lambda>v p. \<lparr>Wi = 1, pdf_Wi = 1, pRaster_Wi = (), P1_Wi = (),
                            AbsDot_Wi = 1, Tr_Wi = 1\<rparr>),
      Sample_Li = (\<lambda>v. \<lparr>lightPdf = 1, lightWeight = 1, pdf_Li = 1, ei_Li = (),
                          AbsDot_Li = 1, Tr_Li = 1\<rparr>),
      LengthSquared = (\<lambda>v w. 1), AbsDot_ns = (\<lambda>v v0 v1. 1), Tr = (\<lambda>v w. 1)\<rparr>"

text \<open>Camera vertex 1 is an escaped ray: a vertex of type \<open>Light\<close>.\<close>

definition escaped_subpaths :: "(real, unit) subpaths" where
  "escaped_subpaths =
     \<lparr>lightVertices = (\<lambda>i. example_vertex),
      cameraVertices = (\<lambda>i. if i = 1 then example_vertex\<lparr>vtype := Light\<rparr> else example_vertex)\<rparr>"

definition no_stats :: path_stats where
  "no_stats = \<lparr>totalPaths = 0, zeroRadiancePaths = 0, pathLength = []\<rparr>"

text \<open>
  A concrete walk: a specular bounce at the first surface, diffuse bounces at the second
  and the third, then the ray escapes. The Jacobian is 1 everywhere.
\<close>

definition surface_hit :: "bool \<Rightarrow> (real, unit) observation" where
  "surface_hit specular =
     \<lparr>Intersect = Some (), MediumSample = None, Sample_p = 0, EscapedRay = (), bsdf = True,
      Sample_f = 1, Sample_f_pdf = 1 / 2, Sample_f_specular = specular, bsdf_Pdf = 1 / 4,
      AbsDot_wo_ns = 1, AbsDot_wi_n = 1, AbsDot_wo_n = 1, AbsDot_wi_ns = 1\<rparr>"

definition specular_walk :: "nat \<Rightarrow> (real, unit) observation" where
  "specular_walk k =
     (if k = 0 then surface_hit True
      else if k \<le> 2 then surface_hit False
      else (surface_hit False)\<lparr>Intersect := None\<rparr>)"

definition unit_Jacobian :: "(real, unit) Vertex \<Rightarrow> (real, unit) Vertex \<Rightarrow> real" where
  "unit_Jacobian v next = 1"

definition first_state :: "(real, unit) walk_state" where
  "first_state =
     \<lparr>step_no = 0, bounces = 0, w_beta = 1, w_pdfFwd = 1, w_pdfRev = 0, path = (\<lambda>k. example_vertex)\<rparr>"

text \<open>An emission for the concrete walk.\<close>

definition example_emission :: "(real, unit) emission" where
  "example_emission =
     \<lparr>em_lightPdf = 1, em_Le = 1, em_pdfPos = 1, em_pdfDir = 1, em_light = (), em_AbsDot = 1,
      em_AbsDot_ng = (\<lambda>v. 1), em_InfiniteLightDensity = 1\<rparr>"

text \<open>The summand of one hypothetical strategy, with the running ratio it is entered with.\<close>

definition camera_term ::
  "'x rectifier \<Rightarrow> MisStrategy \<Rightarrow> 'x \<Rightarrow> int \<Rightarrow> ('s, 'i) subpaths \<Rightarrow> real \<Rightarrow> int \<Rightarrow> int \<Rightarrow> real" where
  "camera_term rectifier mode pxCoords d m ri i j =
     (if \<not> delta (cameraVertices m j) \<and> \<not> delta (cameraVertices m (j - 1))
      then effDensRatio mode (ri * (\<Prod>k \<in> {j..i}. density_ratio (cameraVertices m k))) *
             factor rectifier pxCoords d j
      else 0)"

definition light_term ::
  "('s, 'i) vertex_ops \<Rightarrow> 'x rectifier \<Rightarrow> MisStrategy \<Rightarrow> 'x \<Rightarrow> int \<Rightarrow> ('s, 'i) subpaths \<Rightarrow>
   real \<Rightarrow> int \<Rightarrow> int \<Rightarrow> real" where
  "light_term E rectifier mode pxCoords d m ri i j =
     (if \<not> delta (lightVertices m j) \<and>
         \<not> (if j > 0 then delta (lightVertices m (j - 1)) else IsDeltaLight E (lightVertices m 0))
      then effDensRatio mode (ri * (\<Prod>k \<in> {j..i}. density_ratio (lightVertices m k))) *
             factor rectifier pxCoords d (d - j)
      else 0)"



section \<open>Properties of the scalar helpers\<close>

lemma ucast_byte: "(ucast (ucast (w::uint32) :: byte) :: uint32) = w AND 0xFF"
proof -
  have "(ucast (ucast w :: byte) :: uint32) = take_bit 8 w"
    by (rule bit_word_eqI) (auto simp add: bit_simps)
  also have "\<dots> = w AND mask 8"
    by (simp add: take_bit_eq_mask)
  also have "(mask 8 :: uint32) = 0xFF"
    by (simp add: mask_eq_exp_minus_1)
  finally show ?thesis .
qed

text \<open>
  C7 (as the code has it). The factor is 1 under scheme none; \<open>1/var\<close> when
  \<open>var \<noteq> 0\<close> and 1 otherwise under the reciprocal-variance scheme;
  \<open>1 + mean\<^sup>2/var\<close> when \<open>var \<noteq> 0\<close> and \<open>mean \<noteq> 0\<close> and 1 otherwise under the
  moment-over-variance scheme. The code tests \<open>var\<close> against 0, not for positivity, so it
  agrees with the specification's wording exactly on the variances that are not negative.
\<close>

theorem factorScheme_cases:
  "factorScheme misMod d t var mean =
     (case misMod of
        MIS_MOD_NONE \<Rightarrow> 1
      | MIS_MOD_RECIPROCAL_VARIANCE \<Rightarrow> (if var \<noteq> 0 then 1 / var else 1)
      | MIS_MOD_MOMENT_OVER_VARIANCE \<Rightarrow>
          (if var \<noteq> 0 \<and> mean \<noteq> 0 then 1 + mean\<^sup>2 / var else 1))
   \<and> (0 \<le> var \<longrightarrow> factorScheme misMod d t var mean = factorScheme_spec misMod d t var mean)"
  by (cases misMod) (auto simp add: factorScheme_def factorScheme_spec_def power2_eq_square)

theorem factorScheme_cases_witness:
  "(0::real) \<le> 4 \<and>
   factorScheme MIS_MOD_MOMENT_OVER_VARIANCE 0 1 4 2 = 2 \<and>
   factorScheme MIS_MOD_MOMENT_OVER_VARIANCE 0 1 4 2 =
     factorScheme_spec MIS_MOD_MOMENT_OVER_VARIANCE 0 1 4 2"
  using factorScheme_cases [of MIS_MOD_MOMENT_OVER_VARIANCE 0 1 4 2] by simp

text \<open>
  C7 as stated fails on a negative variance: under the reciprocal-variance scheme the code
  returns \<open>1/var = -1\<close> at \<open>var = -1\<close>, where the stated rule gives 1.
\<close>

theorem factorScheme_negative_variance:
  "factorScheme MIS_MOD_RECIPROCAL_VARIANCE 0 1 (- 1) 0 = - 1 \<and>
   factorScheme_spec MIS_MOD_RECIPROCAL_VARIANCE 0 1 (- 1) 0 = 1 \<and>
   factorScheme MIS_MOD_RECIPROCAL_VARIANCE 0 1 (- 1) 0 \<noteq>
     factorScheme_spec MIS_MOD_RECIPROCAL_VARIANCE 0 1 (- 1) 0"
  by (simp add: factorScheme_def factorScheme_spec_def)

text \<open>
  C8 (as the code has it). The sampler seed of a tile is the 32-bit FNV-1 hash (offset basis
  0x811C9DC5, prime 16777619, arithmetic modulo \<open>2\<^sup>3\<^sup>2\<close>; each round multiplies first
  and xors the byte second) of the eight bytes of the pair (tile index, pass offset), the
  tile index first, each number least-significant byte first.
\<close>

theorem sampler_seed_fnv1:
  "sampler_seed pixel iter = fnv1_32 (le_bytes pixel @ le_bytes iter) \<and>
   tile_seed nXTiles tile_x tile_y sampleOffset =
     fnv1_32 (le_bytes (tile_y * nXTiles + tile_x) @ le_bytes sampleOffset)"
  by (simp add: tile_seed_def sampler_seed_def fnv_hash_def fnv1_32_def le_bytes_def
      fnv_init_def ucast_byte Let_def)

text \<open>
  C8 as stated fails: for tile index 1 and pass offset 0 the seed is 1737233514, and the
  FNV-1a hash of the same eight bytes is 1048580676.
\<close>

theorem sampler_seed_not_fnv1a:
  "sampler_seed 1 0 = 1737233514 \<and>
   fnv1a_32 (le_bytes 1 @ le_bytes 0) = 1048580676 \<and>
   sampler_seed 1 0 \<noteq> fnv1a_32 (le_bytes 1 @ le_bytes 0)"
  by (simp add: sampler_seed_def fnv_hash_def fnv1a_32_def le_bytes_def fnv_init_def Let_def)

text \<open>
  C9 (as the code has it). \<open>BufferIndex\<close> maps some pairs of executed strategies to the same
  index: \<open>(0,2)\<close> and \<open>(2,1)\<close>, both executed once \<open>maxDepth\<close> is at least 1, both go to
  index 2. The pair \<open>(1,1)\<close> goes to index 1.
\<close>

theorem BufferIndex_collision:
  "BufferIndex 0 2 = 2 \<and> BufferIndex 2 1 = 2 \<and> BufferIndex 1 1 = 1 \<and>
   \<not> skipped 1 0 2 \<and> \<not> skipped 1 2 1"
  by (simp add: BufferIndex_def skipped_def)

text \<open>
  C9 as stated fails in its example: \<open>(0,2)\<close> and \<open>(1,1)\<close> get different indices, 2 and 1.
\<close>

theorem BufferIndex_0_2_differs_1_1:
  "BufferIndex 0 2 \<noteq> BufferIndex 1 1 \<and> BufferIndex 0 2 \<noteq> 1"
  by (simp add: BufferIndex_def)

section \<open>Properties of the strategy loop\<close>

lemma strategy_body_fields:
  "connects (strategy_body connect eF eV pFilm s t st) = connects st @ [(s, t)]"
  "L (strategy_body connect eF eV pFilm s t st) =
     (if t \<noteq> 1 then L st + Lpath_of connect pFilm (s, t) else L st)"
  "splats (strategy_body connect eF eV pFilm s t st) =
     (if t \<noteq> 1 then splats st else splats st @ [splat_of connect pFilm (s, t)])"
  by (simp_all add: strategy_body_def Let_def Lpath_of_def splat_of_def split: prod.split)

lemma light_loop_eq:
  "connects (light_loop connect eF eV pFilm maxDepth nLight t s st) =
     connects st @ row maxDepth nLight t s
   \<and> L (light_loop connect eF eV pFilm maxDepth nLight t s st) =
       L st + sum_list (map (Lpath_of connect pFilm)
                (filter (\<lambda>(s, t). t \<noteq> 1) (row maxDepth nLight t s)))
   \<and> splats (light_loop connect eF eV pFilm maxDepth nLight t s st) =
       splats st @ map (splat_of connect pFilm)
                (filter (\<lambda>(s, t). t = 1) (row maxDepth nLight t s))"
proof (induction connect eF eV pFilm maxDepth nLight t s st rule: light_loop.induct)
  case (1 connect eF eV pFilm maxDepth nLight t s st)
  show ?case
  proof (cases "s \<le> nLight")
    case False
    then show ?thesis by (simp add: light_loop.simps row_def)
  next
    case le: True
    have up: "[s..nLight] = s # [s + 1..nLight]" using le by (simp add: upto_rec1)
    show ?thesis
    proof (cases "skipped maxDepth s t")
      case True
      with le 1(1) up show ?thesis
        by (simp add: light_loop.simps[of _ _ _ _ _ _ _ s] row_def)
    next
      case False
      from le False 1(2) up show ?thesis
        by (simp add: light_loop.simps[of _ _ _ _ _ _ _ s] row_def strategy_body_fields add.assoc)
    qed
  qed
qed

lemma camera_loop_eq:
  "connects (camera_loop connect eF eV pFilm maxDepth nCamera nLight t st) =
     connects st @ schedule maxDepth nCamera nLight t
   \<and> L (camera_loop connect eF eV pFilm maxDepth nCamera nLight t st) =
       L st + sum_list (map (Lpath_of connect pFilm)
                (filter (\<lambda>(s, t). t \<noteq> 1) (schedule maxDepth nCamera nLight t)))
   \<and> splats (camera_loop connect eF eV pFilm maxDepth nCamera nLight t st) =
       splats st @ map (splat_of connect pFilm)
                (filter (\<lambda>(s, t). t = 1) (schedule maxDepth nCamera nLight t))"
proof (induction connect eF eV pFilm maxDepth nCamera nLight t st rule: camera_loop.induct)
  case (1 connect eF eV pFilm maxDepth nCamera nLight t st)
  show ?case
  proof (cases "t \<le> nCamera")
    case False
    then show ?thesis by (simp add: camera_loop.simps schedule_def)
  next
    case le: True
    have up: "[t..nCamera] = t # [t + 1..nCamera]" using le by (simp add: upto_rec1)
    from le 1 up show ?thesis
      by (simp add: camera_loop.simps[of _ _ _ _ _ _ _ t] schedule_def light_loop_eq add.assoc)
  qed
qed

lemma set_schedule:
  "set (schedule maxDepth nCamera nLight 1) =
     {(s, t). 1 \<le> t \<and> t \<le> nCamera \<and> 0 \<le> s \<and> s \<le> nLight \<and>
              0 \<le> s + t - 2 \<and> s + t - 2 \<le> maxDepth \<and> (s, t) \<noteq> (1, 1)}"
  by (auto simp add: schedule_def row_def skipped_def Let_def)

lemma distinct_rows:
  "distinct ts \<Longrightarrow> distinct (concat (map (\<lambda>t. row maxDepth nLight t 0) ts))"
proof (induction ts)
  case Nil
  then show ?case by simp
next
  case (Cons t ts)
  have "distinct (row maxDepth nLight t 0)"
    by (simp add: row_def distinct_map inj_on_def)
  moreover have "set (row maxDepth nLight t 0) \<inter> (\<Union>u\<in>set ts. set (row maxDepth nLight u 0)) = {}"
    using Cons.prems by (auto simp add: row_def)
  ultimately show ?case using Cons by simp
qed

lemma distinct_schedule: "distinct (schedule maxDepth nCamera nLight t0)"
  unfolding schedule_def by (rule distinct_rows) simp

text \<open>
  C6. For one pixel sample the loop calls \<open>ConnectBDPT\<close> for exactly the pairs \<open>(s, t)\<close>
  with \<open>1 \<le> t \<le> nCamera\<close>, \<open>0 \<le> s \<le> nLight\<close>, \<open>0 \<le> s + t - 2 \<le> maxDepth\<close> and
  \<open>(s, t) \<noteq> (1, 1)\<close>, each of them once. The accumulated radiance \<open>L\<close> is the sum of the
  contributions of the executed pairs with \<open>t \<noteq> 1\<close>, and the splats are the contributions
  of the executed pairs with \<open>t = 1\<close>, each at the raster position its connection sampled.
\<close>

theorem render_strategies:
  fixes connect :: "int \<Rightarrow> int \<Rightarrow> 'p \<Rightarrow> 's::real_vector \<times> 'p \<times> real"
    and eF eV :: bool and pFilm :: 'p and maxDepth nCamera nLight :: int
  defines "fin \<equiv> execute_strategies connect eF eV pFilm maxDepth nCamera nLight"
  shows "set (connects fin) =
           {(s, t). 1 \<le> t \<and> t \<le> nCamera \<and> 0 \<le> s \<and> s \<le> nLight \<and>
                    0 \<le> s + t - 2 \<and> s + t - 2 \<le> maxDepth \<and> (s, t) \<noteq> (1, 1)}
       \<and> distinct (connects fin)
       \<and> L fin = sum_list (map (\<lambda>(s, t). fst (connect s t pFilm))
                    (filter (\<lambda>(s, t). t \<noteq> 1) (connects fin)))
       \<and> splats fin = map (\<lambda>(s, t). (fst (snd (connect s t pFilm)), fst (connect s t pFilm)))
                    (filter (\<lambda>(s, t). t = 1) (connects fin))"
  unfolding fin_def execute_strategies_def
  using camera_loop_eq[of connect eF eV pFilm maxDepth nCamera nLight 1
        "\<lparr>L = 0, splats = [], connects = [], estimates = [], variances = []\<rparr>"]
  by (simp add: set_schedule distinct_schedule Lpath_of_def splat_of_def)

section \<open>Properties of MISWeight\<close>

lemma store_load [simp]: "store p (load m p) m = m"
  by (cases p) simp_all

lemma load_store [simp]: "load (store p v m) p = v"
  by (cases p) simp_all

lemma store_store [simp]: "store p v (store p w m) = store p v m"
  by (cases p) simp_all

lemma release_assign_vertex: "assign_vertex target v m = (a, m') \<Longrightarrow> release a m' = m"
  by (auto simp add: assign_vertex_def split: option.splits)

lemma release_assign_delta: "assign_delta target b m = (a, m') \<Longrightarrow> release a m' = m"
  by (auto simp add: assign_delta_def split: option.splits)

lemma release_assign_pdfRev: "assign_pdfRev target x m = (a, m') \<Longrightarrow> release a m' = m"
  by (auto simp add: assign_pdfRev_def split: option.splits)

lemma release_update_sampled: "update_sampled sampled s t m = (a, m') \<Longrightarrow> release a m' = m"
  by (auto simp add: update_sampled_def release_assign_vertex split: if_splits)

lemma release_mark_pt: "mark_pt t m = (a, m') \<Longrightarrow> release a m' = m"
  by (auto simp add: mark_pt_def release_assign_delta split: if_splits)

lemma release_mark_qs: "mark_qs s m = (a, m') \<Longrightarrow> release a m' = m"
  by (auto simp add: mark_qs_def release_assign_delta split: if_splits)

lemma release_update_pt_pdfRev:
  "update_pt_pdfRev E s t m = Some (a, m') \<Longrightarrow> release a m' = m"
  by (auto simp add: update_pt_pdfRev_def release_assign_pdfRev split: if_splits bind_splits)

lemma release_update_ptMinus_pdfRev:
  "update_ptMinus_pdfRev E s t m = Some (a, m') \<Longrightarrow> release a m' = m"
  by (auto simp add: update_ptMinus_pdfRev_def release_assign_pdfRev split: if_splits bind_splits)

lemma release_update_qs_pdfRev:
  "update_qs_pdfRev E s t m = Some (a, m') \<Longrightarrow> release a m' = m"
  by (auto simp add: update_qs_pdfRev_def release_assign_pdfRev split: if_splits bind_splits)

lemma release_update_qsMinus_pdfRev:
  "update_qsMinus_pdfRev E s t m = Some (a, m') \<Longrightarrow> release a m' = m"
  by (auto simp add: update_qsMinus_pdfRev_def release_assign_pdfRev split: if_splits bind_splits)

lemma temporary_updates_undone:
  assumes "temporary_updates E sampled s t m0 = Some (scopes, m)"
  shows "fold release scopes m = m0"
proof -
  obtain a1 m1 where s1: "update_sampled sampled s t m0 = (a1, m1)"
    by (cases "update_sampled sampled s t m0")
  obtain a2 m2 where s2: "mark_pt t m1 = (a2, m2)" by (cases "mark_pt t m1")
  obtain a3 m3 where s3: "mark_qs s m2 = (a3, m3)" by (cases "mark_qs s m2")
  from assms s1 s2 s3 obtain a4 m4 a5 m5 a6 m6 a7 where
    s4: "update_pt_pdfRev E s t m3 = Some (a4, m4)" and
    s5: "update_ptMinus_pdfRev E s t m4 = Some (a5, m5)" and
    s6: "update_qs_pdfRev E s t m5 = Some (a6, m6)" and
    s7: "update_qsMinus_pdfRev E s t m6 = Some (a7, m)" and
    sc: "scopes = [a7, a6, a5, a4, a3, a2, a1]"
    by (auto simp add: temporary_updates_def split: bind_splits)
  show ?thesis
    unfolding sc
    using release_update_qsMinus_pdfRev[OF s7] release_update_qs_pdfRev[OF s6]
      release_update_ptMinus_pdfRev[OF s5] release_update_pt_pdfRev[OF s4]
      release_mark_qs[OF s3] release_mark_pt[OF s2] release_update_sampled[OF s1]
    by simp
qed

lemma temporary_updates_None:
  "temporary_updates E sampled s t m0 = None \<longleftrightarrow> (s > 0 \<and> t \<le> 0) \<or> (s \<le> 0 \<and> t = 1)"
  by (auto simp add: temporary_updates_def update_pt_pdfRev_def update_ptMinus_pdfRev_def
      update_qs_pdfRev_def update_qsMinus_pdfRev_def deref_def qs_ptr_def pt_ptr_def
      qsMinus_ptr_def ptMinus_ptr_def split: prod.splits bind_splits if_splits)

text \<open>
  C4. \<open>MISWeight\<close> leaves both vertex arrays as it found them: whenever it returns, on
  the early exit for \<open>s + t = 2\<close> as on the regular one, every \<open>pdfRev\<close> and \<open>delta\<close>
  it overwrote and the slot that took the sampled vertex hold their old values again. It
  returns for every pair \<open>(s, t)\<close> at which it dereferences no null pointer, and only
  for those.
\<close>

theorem MISWeight_restores:
  "(null_dereferenced s t \<longrightarrow> MISWeight E sampled s t pxCoords rectifier mode m0 = None) \<and>
   (\<not> null_dereferenced s t \<longrightarrow>
      (\<exists>w. MISWeight E sampled s t pxCoords rectifier mode m0 = Some (w, m0)))"
proof (cases "s + t = 2")
  case True
  then show ?thesis by (simp add: MISWeight_def null_dereferenced_def)
next
  case False
  show ?thesis
  proof (cases "temporary_updates E sampled s t m0")
    case None
    with False show ?thesis
      using temporary_updates_None[of E sampled s t m0]
      by (simp add: MISWeight_def null_dereferenced_def)
  next
    case (Some r)
    obtain scopes m where r: "r = (scopes, m)" by (cases r)
    from Some r have "fold release scopes m = m0" by (simp add: temporary_updates_undone)
    with False Some r show ?thesis
      using temporary_updates_None[of E sampled s t m0]
      by (simp add: MISWeight_def null_dereferenced_def Let_def)
  qed
qed

theorem MISWeight_restores_witness:
  "null_dereferenced 0 1 \<and>
   MISWeight example_ops example_vertex 0 1 () None MIS_BALANCE example_subpaths = None \<and>
   \<not> null_dereferenced 1 2 \<and>
   (\<exists>w. MISWeight example_ops example_vertex 1 2 () None MIS_BALANCE example_subpaths =
          Some (w, example_subpaths))"
  using MISWeight_restores [of 0 1 example_ops example_vertex "()" None MIS_BALANCE example_subpaths]
    MISWeight_restores [of 1 2 example_ops example_vertex "()" None MIS_BALANCE example_subpaths]
  by (simp add: null_dereferenced_def)

lemma prod_int_snoc:
  fixes f :: "int \<Rightarrow> real"
  assumes "j \<le> i + 1"
  shows "(\<Prod>k \<in> {j..i + 1}. f k) = (\<Prod>k \<in> {j..i}. f k) * f (i + 1)"
proof -
  have "{j..i + 1} = insert (i + 1) {j..i}" using assms by auto
  then show ?thesis by simp
qed

lemma sum_int_snoc:
  fixes g :: "int \<Rightarrow> real"
  assumes "j \<le> i + 1"
  shows "(\<Sum>k \<in> {j..i + 1}. g k) = g (i + 1) + (\<Sum>k \<in> {j..i}. g k)"
proof -
  have "{j..i + 1} = insert (i + 1) {j..i}" using assms by auto
  then show ?thesis by simp
qed

lemma camera_term_shift:
  assumes "j \<le> i"
  shows "camera_term rectifier mode pxCoords d m (ri * density_ratio (cameraVertices m (i + 1))) i j =
         camera_term rectifier mode pxCoords d m ri (i + 1) j"
  using assms by (simp add: camera_term_def prod_int_snoc mult.assoc mult.commute)

lemma camera_strategies_step:
  assumes "0 \<le> i"
  shows "camera_strategies rectifier mode pxCoords s t m (i + 1) ri sumRi =
         camera_strategies rectifier mode pxCoords s t m i
           (ri * density_ratio (cameraVertices m (i + 1)))
           (sumRi + camera_term rectifier mode pxCoords (s + t) m ri (i + 1) (i + 1))"
  using assms
  by (subst camera_strategies.simps) (simp add: Let_def density_ratio_def remap0_def camera_term_def)

lemma camera_strategies_nat:
  "camera_strategies rectifier mode pxCoords s t m (int n) ri sumRi =
     sumRi + (\<Sum>j \<in> {1..int n}. camera_term rectifier mode pxCoords (s + t) m ri (int n) j)"
proof (induction n arbitrary: ri sumRi)
  case 0
  then show ?case by (simp add: camera_strategies.simps)
next
  case (Suc n)
  let ?T = "camera_term rectifier mode pxCoords (s + t) m"
  let ?r = "density_ratio (cameraVertices m (int n + 1))"
  have e: "int (Suc n) = int n + 1" by simp
  have "camera_strategies rectifier mode pxCoords s t m (int n + 1) ri sumRi =
        camera_strategies rectifier mode pxCoords s t m (int n) (ri * ?r)
          (sumRi + ?T ri (int n + 1) (int n + 1))"
    by (rule camera_strategies_step) simp
  also have "\<dots> = sumRi + ?T ri (int n + 1) (int n + 1) + (\<Sum>j \<in> {1..int n}. ?T (ri * ?r) (int n) j)"
    by (rule Suc.IH)
  also have "(\<Sum>j \<in> {1..int n}. ?T (ri * ?r) (int n) j) = (\<Sum>j \<in> {1..int n}. ?T ri (int n + 1) j)"
    by (rule sum.cong) (simp_all add: camera_term_shift)
  finally have main: "camera_strategies rectifier mode pxCoords s t m (int n + 1) ri sumRi =
      sumRi + ?T ri (int n + 1) (int n + 1) + (\<Sum>j \<in> {1..int n}. ?T ri (int n + 1) j)" .
  have snoc: "(\<Sum>j \<in> {1..int n + 1}. ?T ri (int n + 1) j) =
      ?T ri (int n + 1) (int n + 1) + (\<Sum>j \<in> {1..int n}. ?T ri (int n + 1) j)"
    by (rule sum_int_snoc) simp
  show ?case unfolding e using main snoc by linarith
qed

lemma effDensRatio_heuristic: "effDensRatio mode r = heuristic mode r"
  by (cases mode) (simp_all add: effDensRatio_def heuristic_def power2_eq_square)

lemma camera_strategies_sum:
  "camera_strategies rectifier mode pxCoords s t m (t - 1) 1 0 =
     camera_sum rectifier mode pxCoords s t m"
proof (cases "0 \<le> t - 1")
  case True
  then obtain n where n: "t - 1 = int n" using nonneg_int_cases by blast
  show ?thesis
    unfolding n camera_strategies_nat
    by (simp add: camera_sum_def camera_term_def effDensRatio_heuristic n[symmetric] cong: if_cong)
next
  case False
  then show ?thesis
    by (simp add: camera_strategies.simps camera_sum_def)
qed

lemma light_term_shift:
  assumes "j \<le> i"
  shows "light_term E rectifier mode pxCoords d m (ri * density_ratio (lightVertices m (i + 1))) i j =
         light_term E rectifier mode pxCoords d m ri (i + 1) j"
  using assms by (simp add: light_term_def prod_int_snoc mult.assoc mult.commute)

lemma light_strategies_step:
  assumes "- 1 \<le> i"
  shows "light_strategies E rectifier mode pxCoords s t m (i + 1) ri sumRi =
         light_strategies E rectifier mode pxCoords s t m i
           (ri * density_ratio (lightVertices m (i + 1)))
           (sumRi + light_term E rectifier mode pxCoords (s + t) m ri (i + 1) (i + 1))"
  using assms
  by (subst light_strategies.simps) (simp add: Let_def density_ratio_def remap0_def light_term_def)

lemma light_strategies_nat:
  "light_strategies E rectifier mode pxCoords s t m (int n - 1) ri sumRi =
     sumRi + (\<Sum>j \<in> {0..int n - 1}. light_term E rectifier mode pxCoords (s + t) m ri (int n - 1) j)"
proof (induction n arbitrary: ri sumRi)
  case 0
  then show ?case by (simp add: light_strategies.simps)
next
  case (Suc n)
  let ?T = "light_term E rectifier mode pxCoords (s + t) m"
  let ?i = "int n - 1"
  let ?r = "density_ratio (lightVertices m (?i + 1))"
  have e: "int (Suc n) - 1 = ?i + 1" by simp
  have "light_strategies E rectifier mode pxCoords s t m (?i + 1) ri sumRi =
        light_strategies E rectifier mode pxCoords s t m ?i (ri * ?r)
          (sumRi + ?T ri (?i + 1) (?i + 1))"
    by (rule light_strategies_step) simp
  also have "\<dots> = sumRi + ?T ri (?i + 1) (?i + 1) + (\<Sum>j \<in> {0..?i}. ?T (ri * ?r) ?i j)"
    by (rule Suc.IH)
  also have "(\<Sum>j \<in> {0..?i}. ?T (ri * ?r) ?i j) = (\<Sum>j \<in> {0..?i}. ?T ri (?i + 1) j)"
    by (rule sum.cong) (simp_all only: light_term_shift atLeastAtMost_iff)
  finally have main: "light_strategies E rectifier mode pxCoords s t m (?i + 1) ri sumRi =
      sumRi + ?T ri (?i + 1) (?i + 1) + (\<Sum>j \<in> {0..?i}. ?T ri (?i + 1) j)" .
  have snoc: "(\<Sum>j \<in> {0..?i + 1}. ?T ri (?i + 1) j) =
      ?T ri (?i + 1) (?i + 1) + (\<Sum>j \<in> {0..?i}. ?T ri (?i + 1) j)"
    by (rule sum_int_snoc) simp
  show ?case unfolding e using main snoc by linarith
qed

lemma light_strategies_sum:
  "light_strategies E rectifier mode pxCoords s t m (s - 1) 1 sumRi =
     sumRi + light_sum E rectifier mode pxCoords s t m"
proof (cases "0 \<le> s")
  case True
  then obtain n where n: "s = int n" using nonneg_int_cases by blast
  show ?thesis
    unfolding n light_strategies_nat
    by (simp add: light_sum_def light_term_def effDensRatio_heuristic cong: if_cong)
next
  case False
  then show ?thesis
    by (simp add: light_strategies.simps light_sum_def)
qed

lemma store_nonneg:
  assumes "densities_nonneg s t m" "vertex_nonneg (load m p) \<Longrightarrow> vertex_nonneg v"
  shows "densities_nonneg s t (store p v m)"
  using assms by (cases p) (auto simp add: densities_nonneg_def)

lemma assign_vertex_nonneg:
  "assign_vertex target v m = (a, m') \<Longrightarrow> densities_nonneg s t m \<Longrightarrow> vertex_nonneg v \<Longrightarrow>
   densities_nonneg s t m'"
  by (auto simp add: assign_vertex_def store_nonneg split: option.splits)

lemma assign_delta_nonneg:
  "assign_delta target b m = (a, m') \<Longrightarrow> densities_nonneg s t m \<Longrightarrow> densities_nonneg s t m'"
  by (auto simp add: assign_delta_def vertex_nonneg_def intro!: store_nonneg split: option.splits)

lemma assign_pdfRev_nonneg:
  "assign_pdfRev target x m = (a, m') \<Longrightarrow> densities_nonneg s t m \<Longrightarrow> 0 \<le> x \<Longrightarrow>
   densities_nonneg s t m'"
  by (auto simp add: assign_pdfRev_def vertex_nonneg_def intro!: store_nonneg split: option.splits)

lemma temporary_updates_nonneg:
  assumes "temporary_updates E sampled s t m0 = Some (scopes, m)"
    and "densities_nonneg s t m0" and "vertex_nonneg sampled" and "ops_nonneg E"
  shows "densities_nonneg s t m"
proof -
  obtain a1 m1 where s1: "update_sampled sampled s t m0 = (a1, m1)"
    by (cases "update_sampled sampled s t m0")
  obtain a2 m2 where s2: "mark_pt t m1 = (a2, m2)" by (cases "mark_pt t m1")
  obtain a3 m3 where s3: "mark_qs s m2 = (a3, m3)" by (cases "mark_qs s m2")
  from assms(1) s1 s2 s3 obtain a4 m4 a5 m5 a6 m6 a7 where
    s4: "update_pt_pdfRev E s t m3 = Some (a4, m4)" and
    s5: "update_ptMinus_pdfRev E s t m4 = Some (a5, m5)" and
    s6: "update_qs_pdfRev E s t m5 = Some (a6, m6)" and
    s7: "update_qsMinus_pdfRev E s t m6 = Some (a7, m)"
    by (auto simp add: temporary_updates_def split: bind_splits)
  have n1: "densities_nonneg s t m1"
    using s1 assms(2,3) assign_vertex_nonneg[of _ sampled m0 a1 m1 s t]
    by (auto simp add: update_sampled_def split: if_splits)
  have n2: "densities_nonneg s t m2"
    using s2 n1 assign_delta_nonneg[of _ _ m1 a2 m2 s t] by (auto simp add: mark_pt_def split: if_splits)
  have n3: "densities_nonneg s t m3"
    using s3 n2 assign_delta_nonneg[of _ _ m2 a3 m3 s t] by (auto simp add: mark_qs_def split: if_splits)
  have n4: "densities_nonneg s t m4"
    using s4 n3 assms(4) assign_pdfRev_nonneg[of _ _ m3 a4 m4 s t]
    by (auto simp add: update_pt_pdfRev_def ops_nonneg_def split: if_splits bind_splits)
  have n5: "densities_nonneg s t m5"
    using s5 n4 assms(4) assign_pdfRev_nonneg[of _ _ m4 a5 m5 s t]
    by (auto simp add: update_ptMinus_pdfRev_def ops_nonneg_def split: if_splits bind_splits)
  have n6: "densities_nonneg s t m6"
    using s6 n5 assms(4) assign_pdfRev_nonneg[of _ _ m5 a6 m6 s t]
    by (auto simp add: update_qs_pdfRev_def ops_nonneg_def split: if_splits bind_splits)
  show ?thesis
    using s7 n6 assms(4) assign_pdfRev_nonneg[of _ _ m6 a7 m s t]
    by (auto simp add: update_qsMinus_pdfRev_def ops_nonneg_def split: if_splits bind_splits)
qed

lemma density_ratio_nonneg: "vertex_nonneg v \<Longrightarrow> 0 \<le> density_ratio v"
  by (simp add: vertex_nonneg_def density_ratio_def)

lemma heuristic_nonneg: "0 \<le> r \<Longrightarrow> 0 \<le> heuristic mode r"
  by (cases mode) (simp_all add: heuristic_def)

lemma camera_sum_nonneg:
  assumes "densities_nonneg s t m" "\<forall>d k. 0 < factor rectifier pxCoords d k"
  shows "0 \<le> camera_sum rectifier mode pxCoords s t m"
  unfolding camera_sum_def
proof (rule sum_nonneg)
  fix i assume i: "i \<in> {1..t - 1}"
  have "0 \<le> (\<Prod>k \<in> {i..t - 1}. density_ratio (cameraVertices m k))"
    using assms(1) i by (intro prod_nonneg ballI density_ratio_nonneg) (simp add: densities_nonneg_def)
  then show "0 \<le> (if \<not> delta (cameraVertices m i) \<and> \<not> delta (cameraVertices m (i - 1))
        then heuristic mode (\<Prod>k \<in> {i..t - 1}. density_ratio (cameraVertices m k)) *
               factor rectifier pxCoords (s + t) i
        else 0)"
    using assms(2) by (simp add: heuristic_nonneg less_imp_le)
qed

lemma light_sum_nonneg:
  assumes "densities_nonneg s t m" "\<forall>d k. 0 < factor rectifier pxCoords d k"
  shows "0 \<le> light_sum E rectifier mode pxCoords s t m"
  unfolding light_sum_def
proof (rule sum_nonneg)
  fix i assume i: "i \<in> {0..s - 1}"
  have "0 \<le> (\<Prod>k \<in> {i..s - 1}. density_ratio (lightVertices m k))"
    using assms(1) i by (intro prod_nonneg ballI density_ratio_nonneg) (simp add: densities_nonneg_def)
  then show "0 \<le> (if \<not> delta (lightVertices m i) \<and>
           \<not> (if i > 0 then delta (lightVertices m (i - 1))
              else IsDeltaLight E (lightVertices m 0))
        then heuristic mode (\<Prod>k \<in> {i..s - 1}. density_ratio (lightVertices m k)) *
               factor rectifier pxCoords (s + t) (s + t - i)
        else 0)"
    using assms(2) by (simp add: heuristic_nonneg less_imp_le)
qed

lemma MISWeight_closed_form:
  assumes "temporary_updates E sampled s t m0 = Some (scopes, m)" "s + t \<noteq> 2"
  shows "MISWeight E sampled s t pxCoords rectifier mode m0 =
     Some (1 / (1 + (camera_sum rectifier mode pxCoords s t m +
                     light_sum E rectifier mode pxCoords s t m) /
                    factor rectifier pxCoords (s + t) t), m0)"
  using assms
  by (simp add: MISWeight_def Let_def camera_strategies_sum light_strategies_sum
      temporary_updates_undone)

lemma nonneg_examples:
  "densities_nonneg 1 2 example_subpaths" "densities_nonneg 1 2 zero_density_subpaths"
  "vertex_nonneg example_vertex" "ops_nonneg example_ops"
  "\<forall>d k. 0 < factor (Some uneven_factors) () d k"
  by (simp_all add: densities_nonneg_def vertex_nonneg_def example_subpaths_def
      zero_density_subpaths_def example_vertex_def ops_nonneg_def example_ops_def factor_def
      uneven_factors_def)

lemma MISWeight_example:
  "map_option fst
     (MISWeight example_ops example_vertex 1 2 () (Some uneven_factors) MIS_POWER
        zero_density_subpaths) =
   Some (2 / 5)"
  "map_option fst
     (MISWeight example_ops example_vertex 1 2 () (Some uneven_factors) MIS_UNIFORM
        zero_density_subpaths) =
   Some (1 / 7)"
  by code_simp+

text \<open>
  C1. For every strategy \<open>(s, t)\<close> (\<open>s \<ge> 0\<close>, \<open>t \<ge> 1\<close>, \<open>s + t \<ge> 2\<close>),
  \<open>MISWeight\<close> returns 1 when \<open>s + t = 2\<close> and otherwise \<open>1 / (1 + sumRi / \<beta>)\<close>,
  where \<open>sumRi\<close> is the sum, over the hypothetical strategies of the camera subpath and of
  the light subpath whose two vertices are not delta, of the product of the remapped density
  ratios up to the connection vertex, squared under the power heuristic and replaced by 1
  under the uniform heuristic, times the rectifier factor of that hypothetical strategy (1
  without a rectifier), taken over the arrays as the temporary updates leave them, and
  \<open>\<beta>\<close> is \<open>Get(pxCoords, s+t, t)\<close>, or 1 without a rectifier. This is stated in
  exact arithmetic and where the two divisions are defined: \<open>\<beta> \<noteq> 0\<close> and
  \<open>1 + sumRi / \<beta> \<noteq> 0\<close>.
\<close>

theorem MISWeight_value:
  assumes "0 \<le> s" "1 \<le> t" "2 \<le> s + t"
  shows "\<exists>scopes m. temporary_updates E sampled s t m0 = Some (scopes, m) \<and>
     (s + t = 2 \<longrightarrow> MISWeight E sampled s t pxCoords rectifier mode m0 = Some (1, m0)) \<and>
     (let sumRi = camera_sum rectifier mode pxCoords s t m +
                  light_sum E rectifier mode pxCoords s t m;
          \<beta> = (case rectifier of Some Get \<Rightarrow> Get pxCoords (s + t) t | None \<Rightarrow> 1)
      in s + t \<noteq> 2 \<and> \<beta> \<noteq> 0 \<and> 1 + sumRi / \<beta> \<noteq> 0 \<longrightarrow>
         MISWeight E sampled s t pxCoords rectifier mode m0 =
           Some (1 / (1 + sumRi / \<beta>), m0))"
proof -
  from assms have "temporary_updates E sampled s t m0 \<noteq> None"
    by (simp add: temporary_updates_None)
  then obtain scopes m where tu: "temporary_updates E sampled s t m0 = Some (scopes, m)"
    by auto
  have early: "s + t = 2 \<longrightarrow>
      MISWeight E sampled s t pxCoords rectifier mode m0 = Some (1, m0)"
    by (simp add: MISWeight_def)
  have regular: "s + t \<noteq> 2 \<Longrightarrow>
      MISWeight E sampled s t pxCoords rectifier mode m0 =
        Some (1 / (1 + (camera_sum rectifier mode pxCoords s t m +
                        light_sum E rectifier mode pxCoords s t m) /
                       (case rectifier of Some Get \<Rightarrow> Get pxCoords (s + t) t | None \<Rightarrow> 1)), m0)"
    using MISWeight_closed_form[OF tu, of pxCoords rectifier mode] by (simp add: factor_def)
  from tu early regular show ?thesis by (simp add: Let_def)
qed

theorem MISWeight_value_witness:
  "(0::int) \<le> 1 \<and> (1::int) \<le> 2 \<and> (2::int) \<le> 1 + 2 \<and>
   (\<exists>scopes m.
      temporary_updates example_ops example_vertex 1 2 zero_density_subpaths = Some (scopes, m) \<and>
      (1::int) + 2 \<noteq> 2 \<and> uneven_factors () (1 + 2) 2 \<noteq> 0 \<and>
      1 + (camera_sum (Some uneven_factors) MIS_POWER () 1 2 m +
           light_sum example_ops (Some uneven_factors) MIS_POWER () 1 2 m) /
          uneven_factors () (1 + 2) 2 \<noteq> 0 \<and>
      MISWeight example_ops example_vertex 1 2 () (Some uneven_factors) MIS_POWER
          zero_density_subpaths =
        Some (1 / (1 + (camera_sum (Some uneven_factors) MIS_POWER () 1 2 m +
                        light_sum example_ops (Some uneven_factors) MIS_POWER () 1 2 m) /
                       uneven_factors () (1 + 2) 2),
              zero_density_subpaths)) \<and>
   map_option fst
     (MISWeight example_ops example_vertex 1 2 () (Some uneven_factors) MIS_POWER
        zero_density_subpaths) =
   Some (2 / 5) \<and>
   map_option fst
     (MISWeight example_ops example_vertex 1 2 () (Some uneven_factors) MIS_UNIFORM
        zero_density_subpaths) =
   Some (1 / 7) \<and>
   (0::int) \<le> 1 \<and> (1::int) \<le> 1 \<and> (2::int) \<le> 1 + 1 \<and> (1::int) + 1 = 2 \<and>
   MISWeight example_ops example_vertex 1 1 () (Some uneven_factors) MIS_POWER
       zero_density_subpaths =
     Some (1, zero_density_subpaths)"
proof -
  let ?S = "\<lambda>m. camera_sum (Some uneven_factors) MIS_POWER () 1 2 m +
                light_sum example_ops (Some uneven_factors) MIS_POWER () 1 2 m"
  from MISWeight_value [of 1 2 example_ops example_vertex zero_density_subpaths "()"
      "Some uneven_factors" MIS_POWER]
  obtain scopes m where
    tu: "temporary_updates example_ops example_vertex 1 2 zero_density_subpaths =
           Some (scopes, m)" and
    v: "uneven_factors () 3 2 \<noteq> 0 \<and> 1 + ?S m / uneven_factors () 3 2 \<noteq> 0 \<longrightarrow>
        MISWeight example_ops example_vertex 1 2 () (Some uneven_factors) MIS_POWER
            zero_density_subpaths =
          Some (1 / (1 + ?S m / uneven_factors () 3 2), zero_density_subpaths)"
    by (auto simp add: Let_def)
  have nn: "densities_nonneg 1 2 m"
    using temporary_updates_nonneg[OF tu nonneg_examples(2,3,4)] .
  have S: "0 \<le> ?S m"
    using camera_sum_nonneg[OF nn nonneg_examples(5)] light_sum_nonneg[OF nn nonneg_examples(5)]
    by simp
  have b: "uneven_factors () 3 2 = 1" by (simp add: uneven_factors_def)
  from S b have d: "1 + ?S m / uneven_factors () 3 2 \<noteq> 0" by simp
  from v b d have w: "MISWeight example_ops example_vertex 1 2 () (Some uneven_factors) MIS_POWER
            zero_density_subpaths =
          Some (1 / (1 + ?S m / uneven_factors () 3 2), zero_density_subpaths)"
    by simp
  have e: "MISWeight example_ops example_vertex 1 1 () (Some uneven_factors) MIS_POWER
       zero_density_subpaths = Some (1, zero_density_subpaths)"
    using MISWeight_value [of 1 1 example_ops example_vertex zero_density_subpaths "()"
      "Some uneven_factors" MIS_POWER]
    by auto
  from tu b d w e MISWeight_example show ?thesis by simp
qed

text \<open>
  The weight is not \<open>1 / (1 + sumRi / \<beta>)\<close> with \<open>sumRi\<close> the sum of the remapped
  density ratios alone. For the strategy \<open>(1, 2)\<close> the two ratios are 1 / 2 each and their
  sum is 1. Under the balance heuristic, with a rectifier whose factor is 1 for the current
  strategy and 3 for the two hypothetical ones, that sum would give the weight 1 / 2, and
  \<open>MISWeight\<close> returns 1 / 4. Under the power heuristic without a rectifier it would
  give 1 / 2 again, and \<open>MISWeight\<close> returns 2 / 3.
\<close>

theorem MISWeight_not_ratio_sum:
  "map_option fst
     (MISWeight example_ops example_vertex 1 2 () (Some uneven_factors) MIS_BALANCE
        example_subpaths) =
   Some (1 / 4) \<and>
   map_option (\<lambda>(scopes, m). 1 / (1 + ratio_sum example_ops 1 2 m / uneven_factors () (1 + 2) 2))
     (temporary_updates example_ops example_vertex 1 2 example_subpaths) =
   Some (1 / 2) \<and>
   map_option fst
     (MISWeight example_ops example_vertex 1 2 () None MIS_POWER example_subpaths) =
   Some (2 / 3) \<and>
   map_option (\<lambda>(scopes, m). 1 / (1 + ratio_sum example_ops 1 2 m / 1))
     (temporary_updates example_ops example_vertex 1 2 example_subpaths) =
   Some (1 / 2)"
  by code_simp

text \<open>
  In exact arithmetic the weight lies between 0 and 1: for every strategy \<open>(s, t)\<close>, if
  the vertices of the two subpaths and the sampled vertex have non-negative \<open>pdfFwd\<close>
  and \<open>pdfRev\<close>, the density methods of \<open>Vertex\<close> return non-negative numbers, and
  every rectifier factor is positive (or there is no rectifier), then the sum is not
  negative and \<open>1 / (1 + sumRi / \<beta>)\<close> is in the unit interval. The single-precision
  arithmetic of the source does not inherit the bound. For \<open>s = 0\<close> and \<open>t = 3\<close>,
  with the forward densities \<open>2^-100\<close> at camera vertex 2 and \<open>2^100\<close> at camera
  vertex 1, and the reverse densities \<open>2^100\<close> and \<open>2^-100\<close> from \<open>PdfLightOrigin\<close>
  and \<open>PdfLight\<close>, the first ratio, \<open>2^200\<close>, overflows to an infinity and the
  second, \<open>2^-200\<close>, underflows to 0: the running product \<open>ri\<close> becomes a NaN, and so
  do \<open>sumRi\<close> and the weight, which \<open>ConnectBDPT\<close> checks with
  \<^verbatim>\<open>DCHECK(!std::isnan(misWeight))\<close>.
\<close>

lemma MISWeight_range_exact:
  assumes "0 \<le> s" "1 \<le> t" "2 \<le> s + t"
    and "densities_nonneg s t m0" and "vertex_nonneg sampled" and "ops_nonneg E"
    and "\<forall>d k. 0 < factor rectifier pxCoords d k"
  shows "\<exists>misWeight m. MISWeight E sampled s t pxCoords rectifier mode m0 = Some (misWeight, m) \<and>
           0 \<le> misWeight \<and> misWeight \<le> 1"
proof (cases "s + t = 2")
  case True
  then show ?thesis by (simp add: MISWeight_def)
next
  case False
  from assms(1-3) have "temporary_updates E sampled s t m0 \<noteq> None"
    by (simp add: temporary_updates_None)
  then obtain scopes m where tu: "temporary_updates E sampled s t m0 = Some (scopes, m)"
    by auto
  have nn: "densities_nonneg s t m"
    using temporary_updates_nonneg[OF tu assms(4,5,6)] .
  define S where "S = camera_sum rectifier mode pxCoords s t m +
                     light_sum E rectifier mode pxCoords s t m"
  define b where "b = factor rectifier pxCoords (s + t) t"
  have S: "0 \<le> S"
    unfolding S_def using camera_sum_nonneg[OF nn assms(7)] light_sum_nonneg[OF nn assms(7)]
    by simp
  have b: "0 < b" unfolding b_def using assms(7) by simp
  have "0 \<le> S / b" using S b by simp
  then have "0 \<le> 1 / (1 + S / b) \<and> 1 / (1 + S / b) \<le> 1"
    by (simp add: field_simps)
  then show ?thesis
    using MISWeight_closed_form[OF tu False, of pxCoords rectifier mode]
    by (simp add: S_def b_def)
qed

section \<open>Properties of ConnectBDPT\<close>

text \<open>
  C10 (as the code has it). A connection that the guard for infinite area lights rejects
  returns the black spectrum at once: \<open>MISWeight\<close> is not invoked and nothing is stored
  through \<open>misWeightPtr\<close>. For every other connection: when the unweighted contribution
  \<open>L\<close> is black, the result does not depend on \<open>MISWeight\<close> (the vertex arrays, the
  rectifier and the strategy play no part), 0 is stored through \<open>misWeightPtr\<close> when it is
  not null, and the black spectrum is returned; when \<open>L\<close> is not black, the weight that
  \<open>MISWeight\<close> computes is stored and \<open>L\<close> times that weight is returned.
\<close>

theorem ConnectBDPT_weighting:
  assumes "connection E C sampled0 s t pRaster m = (Lc, sampled, pRaster')"
  shows "(rejected s t m \<longrightarrow>
            ConnectBDPT E C sampled0 px s t pRaster misWeightPtr rectifier misStrategy m st =
              Some (0, pRaster, misWeightPtr, m, st)) \<and>
         (\<not> rejected s t m \<and> Lc = 0 \<longrightarrow>
            ConnectBDPT E C sampled0 px s t pRaster misWeightPtr rectifier misStrategy m st =
              Some (0, pRaster', map_option (\<lambda>old. 0) misWeightPtr, m, counted Lc s t st)) \<and>
         (\<not> rejected s t m \<and> Lc \<noteq> 0 \<longrightarrow>
            ConnectBDPT E C sampled0 px s t pRaster misWeightPtr rectifier misStrategy m st =
              (case MISWeight E sampled s t (px pRaster') rectifier misStrategy m of
                 None \<Rightarrow> None
               | Some (misWeight, m') \<Rightarrow>
                   Some (misWeight *\<^sub>R Lc, pRaster', map_option (\<lambda>old. misWeight) misWeightPtr,
                         m', counted Lc s t st)))"
  using assms
  by (auto simp add: ConnectBDPT_def rejected_def counted_def Let_def map_option_case
      split: option.splits bind_splits)

theorem ConnectBDPT_weighting_witness:
  "connection example_ops example_connect_ops example_vertex 1 2 () escaped_subpaths =
     (1, CreateLight () 1 (1 / 3), ()) \<and>
   rejected 1 2 escaped_subpaths \<and>
   ConnectBDPT example_ops example_connect_ops example_vertex (\<lambda>p. p) 1 2 () (Some 5) None
     MIS_BALANCE escaped_subpaths no_stats = Some (0, (), Some 5, escaped_subpaths, no_stats) \<and>
   connection example_ops example_connect_ops example_vertex 0 1 () example_subpaths =
     (0, example_vertex, ()) \<and>
   \<not> rejected 0 1 example_subpaths \<and>
   MISWeight example_ops example_vertex 0 1 () None MIS_BALANCE example_subpaths = None \<and>
   ConnectBDPT example_ops example_connect_ops example_vertex (\<lambda>p. p) 0 1 () (Some 5) None
     MIS_BALANCE example_subpaths no_stats =
     Some (0, (), Some 0, example_subpaths, counted (0::real) 0 1 no_stats) \<and>
   connection example_ops example_connect_ops example_vertex 2 2 () example_subpaths =
     (1, example_vertex, ()) \<and>
   \<not> rejected 2 2 example_subpaths \<and>
   ConnectBDPT example_ops example_connect_ops example_vertex (\<lambda>p. p) 2 2 () (Some 5) None
     MIS_BALANCE example_subpaths no_stats =
     (case MISWeight example_ops example_vertex 2 2 () None MIS_BALANCE example_subpaths of
        None \<Rightarrow> None
      | Some (misWeight, m') \<Rightarrow>
          Some (misWeight *\<^sub>R 1, (), map_option (\<lambda>old. misWeight) (Some (5::real)), m',
                counted (1::real) 2 2 no_stats))"
proof -
  have c1: "connection example_ops example_connect_ops example_vertex 1 2 () escaped_subpaths =
      (1, CreateLight () 1 (1 / 3), ())"
    by (simp add: connection_def example_connect_ops_def example_ops_def escaped_subpaths_def
        example_vertex_def CreateLight_def new_Vertex_def Let_def)
  have c2: "connection example_ops example_connect_ops example_vertex 0 1 () example_subpaths =
      (0, example_vertex, ())"
    by (simp add: connection_def example_connect_ops_def example_ops_def example_subpaths_def
        example_vertex_def)
  have c3: "connection example_ops example_connect_ops example_vertex 2 2 () example_subpaths =
      (1, example_vertex, ())"
    by (simp add: connection_def example_connect_ops_def example_ops_def example_subpaths_def
        example_vertex_def G_def Let_def)
  have r1: "rejected 1 2 escaped_subpaths"
    by (simp add: rejected_def escaped_subpaths_def example_vertex_def)
  have r2: "\<not> rejected 0 1 example_subpaths" "\<not> rejected 2 2 example_subpaths"
    by (simp_all add: rejected_def example_subpaths_def example_vertex_def)
  have undefined_weight:
    "MISWeight example_ops example_vertex 0 1 () None MIS_BALANCE example_subpaths = None"
  proof -
    have "temporary_updates example_ops example_vertex 0 1 example_subpaths = None"
      by (simp add: temporary_updates_None)
    then show ?thesis by (simp add: MISWeight_def)
  qed
  show ?thesis
    using c1 c2 c3 r1 r2 undefined_weight
      ConnectBDPT_weighting [OF c1, of "\<lambda>p. p" "Some 5" None MIS_BALANCE no_stats]
      ConnectBDPT_weighting [OF c2, of "\<lambda>p. p" "Some 5" None MIS_BALANCE no_stats]
      ConnectBDPT_weighting [OF c3, of "\<lambda>p. p" "Some 5" None MIS_BALANCE no_stats]
    by simp
qed

text \<open>
  C10 as stated fails on a rejected connection: the local \<open>L\<close> is black and the black
  spectrum is returned, but the \<open>Float\<close> behind \<open>misWeightPtr\<close>, 5 before the call, is
  still 5 after it and not 0.
\<close>

theorem ConnectBDPT_rejected_keeps_misWeight:
  "ConnectBDPT example_ops example_connect_ops example_vertex (\<lambda>p. p) 1 2 () (Some 5) None
     MIS_BALANCE escaped_subpaths no_stats =
   Some (0, (), Some 5, escaped_subpaths, no_stats)"
  by (simp add: ConnectBDPT_def escaped_subpaths_def example_vertex_def)

section \<open>Properties of RandomWalk\<close>

lemma fresh_vertices [simp]:
  "\<not> delta (CreateSurface J si b pdf prev)"
  "\<not> delta (CreateMedium J mi b pdf prev)"
  "\<not> delta (CreateLight ei b pdf)"
  "pdfFwd (CreateSurface J si b 0 prev) = 0"
  "pdfFwd (CreateMedium J mi b 0 prev) = 0"
  "pdfFwd (CreateLight ei b pdf) = pdf"
  by (simp_all add: CreateSurface_def CreateMedium_def CreateLight_def new_Vertex_def
      ConvertDensity_def Let_def)

lemma delta_neighbours_new_vertex:
  assumes "walk_inv st" "\<not> delta v" "w_pdfFwd st = 0 \<longrightarrow> pdfFwd v = 0"
  shows "delta_neighbours (bounces st + 1) ((path st)(bounces st := v))"
  unfolding delta_neighbours_def
proof (intro allI impI)
  fix k
  let ?i = "bounces st" and ?p = "(path st)(bounces st := v)"
  assume k: "0 \<le> k \<and> k < ?i + 1 \<and> delta (?p k)"
  with assms(2) have ki: "k < ?i" and dk: "delta (path st k)"
    by (auto split: if_splits)
  from assms(1) k ki dk have old: "pdfRev (path st (k - 1)) = 0"
    "k + 1 < ?i \<longrightarrow> pdfFwd (path st (k + 1)) = 0"
    by (auto simp add: walk_inv_def delta_neighbours_def)
  have "pdfFwd (?p (k + 1)) = 0" if "k + 1 < ?i + 1"
  proof (cases "k + 1 = ?i")
    case True
    then have "k = ?i - 1" by simp
    with dk k assms(1) True have "w_pdfFwd st = 0"
      by (auto simp add: walk_inv_def)
    with assms(3) True show ?thesis by simp
  next
    case False
    with that old(2) show ?thesis by simp
  qed
  moreover have "pdfRev (?p (k - 1)) = 0" using old(1) ki by simp
  ultimately show "pdfRev (?p (k - 1)) = 0 \<and> (k + 1 < ?i + 1 \<longrightarrow> pdfFwd (?p (k + 1)) = 0)"
    by blast
qed

lemma iteration_Return:
  assumes "RandomWalk_iteration J W maxDepth mode st = Return n p"
    and "bounces st < maxDepth" and "walk_inv st"
  shows "bounces st \<le> n \<and> n \<le> maxDepth \<and>
         (\<forall>k. k \<noteq> bounces st \<longrightarrow> p k = path st k) \<and>
         (n = bounces st \<longrightarrow> p = path st) \<and>
         delta_neighbours n p"
proof -
  have inv0: "delta_neighbours (bounces st) (path st)"
    using assms(3) by (simp add: walk_inv_def)
  have new: "\<And>v. \<not> delta v \<Longrightarrow> (w_pdfFwd st = 0 \<longrightarrow> pdfFwd v = 0) \<Longrightarrow>
      delta_neighbours (bounces st + 1) ((path st)(bounces st := v))"
    using delta_neighbours_new_vertex[OF assms(3)] by blast
  from assms(1) consider
      (same) "n = bounces st" "p = path st"
    | (vertex) v where "n = bounces st + 1" "p = (path st)(bounces st := v)" "\<not> delta v"
        "w_pdfFwd st = 0 \<longrightarrow> pdfFwd v = 0"
    by (auto simp add: RandomWalk_iteration_def Let_def split: option.splits if_splits prod.splits)
  then show ?thesis
  proof cases
    case same
    with inv0 assms(2) show ?thesis by simp
  next
    case vertex
    with new[of v] assms(2) show ?thesis by simp
  qed
qed

lemma walk_inv_next_vertex:
  assumes "walk_inv st" "w_pdfFwd st = 0 \<longrightarrow> pdfFwd v = 0" "delta v \<longrightarrow> x = 0 \<and> y = 0"
  shows "walk_inv \<lparr>step_no = k', bounces = bounces st + 1, w_beta = b', w_pdfFwd = x, w_pdfRev = y,
                   path = set_prev_pdfRev J (bounces st) y ((path st)(bounces st := v))\<rparr>"
proof -
  let ?i = "bounces st"
  let ?p = "set_prev_pdfRev J ?i y ((path st)(?i := v))"
  have p_i: "?p ?i = v" by (simp add: set_prev_pdfRev_def)
  have p_prev: "?p (?i - 1) = (path st (?i - 1))\<lparr>pdfRev := y * J v (path st (?i - 1))\<rparr>"
    by (simp add: set_prev_pdfRev_def ConvertDensity_def)
  have p_else: "\<And>k. k \<noteq> ?i \<Longrightarrow> k \<noteq> ?i - 1 \<Longrightarrow> ?p k = path st k"
    by (simp add: set_prev_pdfRev_def)
  have delta_old: "\<And>k. k < ?i \<Longrightarrow> delta (?p k) = delta (path st k)"
    subgoal for k by (cases "k = ?i - 1") (simp_all add: p_prev p_else)
    done
  have fwd_old: "\<And>k. k < ?i \<Longrightarrow> pdfFwd (?p k) = pdfFwd (path st k)"
    subgoal for k by (cases "k = ?i - 1") (simp_all add: p_prev p_else)
    done
  have "delta_neighbours (?i + 1) ?p"
    unfolding delta_neighbours_def
  proof (intro allI impI)
    fix k
    assume k: "0 \<le> k \<and> k < ?i + 1 \<and> delta (?p k)"
    show "pdfRev (?p (k - 1)) = 0 \<and> (k + 1 < ?i + 1 \<longrightarrow> pdfFwd (?p (k + 1)) = 0)"
    proof (cases "k = ?i")
      case True
      with k p_i assms(3) have "y = 0" by simp
      with p_prev True show ?thesis by simp
    next
      case False
      with k have ki: "k < ?i" by simp
      with k have dk: "delta (path st k)" by (simp add: delta_old)
      from assms(1) k ki dk have old: "pdfRev (path st (k - 1)) = 0"
        "k + 1 < ?i \<longrightarrow> pdfFwd (path st (k + 1)) = 0"
        by (auto simp add: walk_inv_def delta_neighbours_def)
      have "pdfRev (?p (k - 1)) = 0" using old(1) ki by (simp add: p_else)
      moreover have "pdfFwd (?p (k + 1)) = 0"
      proof (cases "k + 1 = ?i")
        case True
        then have "k = ?i - 1" by simp
        with dk k assms(1) True have "w_pdfFwd st = 0"
          by (auto simp add: walk_inv_def)
        with assms(2) True p_i show ?thesis by simp
      next
        case False
        with ki have "k + 1 < ?i" by simp
        with old(2) show ?thesis by (simp add: fwd_old)
      qed
      ultimately show ?thesis by blast
    qed
  qed
  moreover have "delta (?p ?i) \<longrightarrow> x = 0" using assms(3) p_i by simp
  ultimately show ?thesis by (simp add: walk_inv_def)
qed

lemma iteration_Again:
  assumes "RandomWalk_iteration J W maxDepth mode st = Again st'"
    and "bounces st < maxDepth" and "walk_inv st"
  shows "step_no st' = Suc (step_no st) \<and> walk_inv st' \<and>
         ((bounces st' = bounces st \<and> path st' = path st \<and> passes_boundary (W (step_no st))) \<or>
          (bounces st' = bounces st + 1 \<and> bounces st' < maxDepth \<and>
           (\<forall>k. k \<noteq> bounces st \<and> k \<noteq> bounces st - 1 \<longrightarrow> path st' k = path st k) \<and>
           path st' (bounces st - 1) =
             (path st (bounces st - 1))\<lparr>pdfRev := pdfRev (path st' (bounces st - 1))\<rparr>))"
proof -
  from assms(1) consider
      (boundary) "step_no st' = Suc (step_no st)" "bounces st' = bounces st" "path st' = path st"
        "w_pdfFwd st' = w_pdfFwd st" "passes_boundary (W (step_no st))"
    | (vertex) v x y b' where
        "st' = \<lparr>step_no = step_no st + 1, bounces = bounces st + 1, w_beta = b', w_pdfFwd = x,
                w_pdfRev = y, path = set_prev_pdfRev J (bounces st) y ((path st)(bounces st := v))\<rparr>"
        "bounces st + 1 < maxDepth" "w_pdfFwd st = 0 \<longrightarrow> pdfFwd v = 0"
        "delta v \<longrightarrow> x = 0 \<and> y = 0"
    by (auto simp add: RandomWalk_iteration_def Let_def passes_boundary_def
        split: option.splits if_splits prod.splits)
  then show ?thesis
  proof cases
    case boundary
    with assms(3) show ?thesis by (simp add: walk_inv_def)
  next
    case vertex
    have inv: "walk_inv st'"
      unfolding vertex(1) by (rule walk_inv_next_vertex[OF assms(3) vertex(3,4)])
    have frame: "\<forall>k. k \<noteq> bounces st \<and> k \<noteq> bounces st - 1 \<longrightarrow> path st' k = path st k"
      by (simp add: vertex(1) set_prev_pdfRev_def)
    have prev: "path st' (bounces st - 1) =
        (path st (bounces st - 1))\<lparr>pdfRev := pdfRev (path st' (bounces st - 1))\<rparr>"
      by (simp add: vertex(1) set_prev_pdfRev_def)
    from inv frame prev vertex(2) show ?thesis
      by (simp add: vertex(1))
  qed
qed

lemma walk_result_Return:
  assumes "RandomWalk_iteration J W maxDepth mode st = Return n p"
    and "bounces st < maxDepth" and "walk_inv st"
  shows "walk_result maxDepth st n p"
proof -
  from iteration_Return[OF assms] have
    b: "bounces st \<le> n" "n \<le> maxDepth" and
    fr: "\<forall>k. k \<noteq> bounces st \<longrightarrow> p k = path st k" and
    same: "n = bounces st \<longrightarrow> p = path st" and
    dn: "delta_neighbours n p"
    by blast+
  have "p k = path st k" if "k < bounces st - 1 \<or> n \<le> k" for k
  proof (cases "k = bounces st")
    case True
    with that b have "n = bounces st" by auto
    with same show ?thesis by simp
  next
    case False
    with fr show ?thesis by simp
  qed
  moreover have "p (bounces st - 1) = path st (bounces st - 1)" using fr by simp
  ultimately show ?thesis using b dn by (simp add: walk_result_def)
qed

lemma walk_result_step:
  assumes "walk_result maxDepth st' n p"
    and "bounces st' = bounces st + 1"
    and "\<forall>k. k \<noteq> bounces st \<and> k \<noteq> bounces st - 1 \<longrightarrow> path st' k = path st k"
    and "path st' (bounces st - 1) =
           (path st (bounces st - 1))\<lparr>pdfRev := pdfRev (path st' (bounces st - 1))\<rparr>"
  shows "walk_result maxDepth st n p"
proof -
  let ?i = "bounces st"
  from assms(1,2) have
    b: "?i + 1 \<le> n" "n \<le> maxDepth" and
    fr: "\<forall>k. k < ?i \<or> n \<le> k \<longrightarrow> p k = path st' k" and
    dn: "delta_neighbours n p"
    by (simp_all add: walk_result_def)
  have "p k = path st k" if "k < ?i - 1 \<or> n \<le> k" for k
  proof -
    from that b have "k \<noteq> ?i \<and> k \<noteq> ?i - 1" by auto
    moreover from that have "k < ?i \<or> n \<le> k" by auto
    ultimately show ?thesis using fr assms(3) by metis
  qed
  moreover have "p (?i - 1) = path st' (?i - 1)" using fr by simp
  then have "p (?i - 1) = (path st (?i - 1))\<lparr>pdfRev := pdfRev (p (?i - 1))\<rparr>"
    using assms(4) by simp
  ultimately show ?thesis using b dn by (simp add: walk_result_def)
qed

lemma walk_result_boundary:
  assumes "walk_result maxDepth st' n p" "bounces st' = bounces st" "path st' = path st"
  shows "walk_result maxDepth st n p"
  using assms by (simp add: walk_result_def)

lemma RandomWalk_loop_total:
  assumes "boundaries_end W"
  shows "walk_inv st \<Longrightarrow> bounces st < maxDepth \<Longrightarrow>
         \<exists>n p. RandomWalk_loop J W maxDepth mode st = Some (n, p) \<and> walk_result maxDepth st n p"
proof (induction "nat (maxDepth - bounces st)" arbitrary: st rule: less_induct)
  case less
  have level: "\<exists>n p. RandomWalk_loop J W maxDepth mode s = Some (n, p) \<and> walk_result maxDepth s n p"
    if "\<not> passes_boundary (W (step_no s + d))" "walk_inv s" "bounces s = bounces st" for d s
    using that
  proof (induction d arbitrary: s)
    case 0
    show ?case
    proof (cases "RandomWalk_iteration J W maxDepth mode s")
      case (Return n p)
      with walk_result_Return[OF Return] 0 less.prems show ?thesis
        by (subst RandomWalk_loop.simps) simp
    next
      case (Again s')
      from iteration_Again[OF Again] 0 less.prems have
        inv: "walk_inv s'" and b: "bounces s' = bounces s + 1" "bounces s' < maxDepth" and
        fr: "\<forall>k. k \<noteq> bounces s \<and> k \<noteq> bounces s - 1 \<longrightarrow> path s' k = path s k"
          "path s' (bounces s - 1) =
             (path s (bounces s - 1))\<lparr>pdfRev := pdfRev (path s' (bounces s - 1))\<rparr>"
        by auto
      have "nat (maxDepth - bounces s') < nat (maxDepth - bounces st)"
        using b 0 less.prems by simp
      from less.hyps[OF this inv b(2)] obtain n p where
        r: "RandomWalk_loop J W maxDepth mode s' = Some (n, p)" "walk_result maxDepth s' n p"
        by blast
      from walk_result_step[OF r(2) b(1) fr] r(1) Again show ?thesis
        by (subst RandomWalk_loop.simps) simp
    qed
  next
    case (Suc d)
    show ?case
    proof (cases "RandomWalk_iteration J W maxDepth mode s")
      case (Return n p)
      with walk_result_Return[OF Return] Suc.prems less.prems show ?thesis
        by (subst RandomWalk_loop.simps) simp
    next
      case (Again s')
      from iteration_Again[OF Again] Suc.prems less.prems have
        it: "step_no s' = Suc (step_no s)" and inv: "walk_inv s'" and
        alt: "(bounces s' = bounces s \<and> path s' = path s) \<or>
          (bounces s' = bounces s + 1 \<and> bounces s' < maxDepth \<and>
           (\<forall>k. k \<noteq> bounces s \<and> k \<noteq> bounces s - 1 \<longrightarrow> path s' k = path s k) \<and>
           path s' (bounces s - 1) =
             (path s (bounces s - 1))\<lparr>pdfRev := pdfRev (path s' (bounces s - 1))\<rparr>)"
        by auto
      from alt show ?thesis
      proof
        assume same: "bounces s' = bounces s \<and> path s' = path s"
        have "\<not> passes_boundary (W (step_no s' + d))" using Suc.prems(1) it by simp
        from Suc.IH[OF this inv] same Suc.prems obtain n p where
          r: "RandomWalk_loop J W maxDepth mode s' = Some (n, p)" "walk_result maxDepth s' n p"
          by auto
        from walk_result_boundary[OF r(2)] same r(1) Again show ?thesis
          by (subst RandomWalk_loop.simps) simp
      next
        assume step: "bounces s' = bounces s + 1 \<and> bounces s' < maxDepth \<and>
           (\<forall>k. k \<noteq> bounces s \<and> k \<noteq> bounces s - 1 \<longrightarrow> path s' k = path s k) \<and>
           path s' (bounces s - 1) =
             (path s (bounces s - 1))\<lparr>pdfRev := pdfRev (path s' (bounces s - 1))\<rparr>"
        have "nat (maxDepth - bounces s') < nat (maxDepth - bounces st)"
          using step Suc.prems less.prems by simp
        from less.hyps[OF this inv] step obtain n p where
          r: "RandomWalk_loop J W maxDepth mode s' = Some (n, p)" "walk_result maxDepth s' n p"
          by blast
        from walk_result_step[OF r(2)] step r(1) Again show ?thesis
          by (subst RandomWalk_loop.simps) simp
      qed
    qed
  qed
  from assms obtain j where j: "step_no st \<le> j" "\<not> passes_boundary (W j)"
    unfolding boundaries_end_def by blast
  then have "\<not> passes_boundary (W (step_no st + (j - step_no st)))" by simp
  from level[OF this less.prems(1) refl] show ?case .
qed


lemma RandomWalk_total:
  assumes "0 \<le> maxDepth" "boundaries_end W"
  shows "\<exists>n p'. RandomWalk J W b pdf maxDepth mode p = Some (n, p') \<and> 0 \<le> n \<and> n \<le> maxDepth \<and>
           (\<forall>k. k < - 1 \<or> n \<le> k \<longrightarrow> p' k = p k) \<and>
           p' (- 1) = (p (- 1))\<lparr>pdfRev := pdfRev (p' (- 1))\<rparr> \<and>
           delta_neighbours n p'"
proof (cases "maxDepth = 0")
  case True
  then show ?thesis by (simp add: RandomWalk_def delta_neighbours_def)
next
  case False
  let ?st = "\<lparr>step_no = 0, bounces = 0, w_beta = b, w_pdfFwd = pdf, w_pdfRev = 0, path = p\<rparr>"
  have inv: "walk_inv ?st" by (simp add: walk_inv_def delta_neighbours_def)
  have lt: "bounces ?st < maxDepth" using assms(1) False by simp
  from RandomWalk_loop_total[OF assms(2) inv lt, of J mode] obtain n p' where
    "RandomWalk_loop J W maxDepth mode ?st = Some (n, p')" "walk_result maxDepth ?st n p'"
    by blast
  with False show ?thesis by (simp add: RandomWalk_def walk_result_def)
qed

lemma GenerateCameraSubpath_total:
  assumes "0 \<le> maxDepth" "boundaries_end W"
  shows "\<exists>n p'. GenerateCameraSubpath J W maxDepth ei b pdfDir p = Some (n, p') \<and>
           0 \<le> n \<and> n \<le> maxDepth \<and> (\<forall>k. k < 0 \<or> n \<le> k \<longrightarrow> p' k = p k)"
proof (cases "maxDepth = 0")
  case True
  then show ?thesis by (simp add: GenerateCameraSubpath_def)
next
  case False
  let ?p0 = "p(0 := CreateCamera ei b)"
  from assms(1) False have "0 \<le> maxDepth - 1" by simp
  from RandomWalk_total[OF this assms(2), of J b pdfDir Radiance "advance ?p0"] obtain n q where
    r: "RandomWalk J W b pdfDir (maxDepth - 1) Radiance (advance ?p0) = Some (n, q)"
      "0 \<le> n" "n \<le> maxDepth - 1" "\<forall>k. k < - 1 \<or> n \<le> k \<longrightarrow> q k = advance ?p0 k"
    by blast
  have "retreat q k = p k" if "k < 0 \<or> n + 1 \<le> k" for k
  proof -
    from that have "k - 1 < - 1 \<or> n \<le> k - 1" by auto
    with r(4) have "q (k - 1) = advance ?p0 (k - 1)" by blast
    moreover from that r(2) have "k \<noteq> 0" by auto
    ultimately show ?thesis by (simp add: retreat_def advance_def)
  qed
  with r False show ?thesis by (simp add: GenerateCameraSubpath_def Let_def)
qed

lemma correct_infinite_frame:
  assumes "0 \<le> n" "k < 0 \<or> n + 1 \<le> k"
  shows "correct_infinite E em n p k = p k"
  using assms by (auto simp add: correct_infinite_def Let_def)

lemma GenerateLightSubpath_total:
  assumes "0 \<le> maxDepth" "boundaries_end W"
  shows "\<exists>n p'. GenerateLightSubpath J W E maxDepth em p = Some (n, p') \<and>
           0 \<le> n \<and> n \<le> maxDepth \<and> (\<forall>k. k < 0 \<or> n \<le> k \<longrightarrow> p' k = p k)"
proof (cases "maxDepth = 0 \<or> em_pdfPos em = 0 \<or> em_pdfDir em = 0 \<or> em_Le em = 0")
  case True
  with assms(1) show ?thesis by (auto simp add: GenerateLightSubpath_def)
next
  case False
  let ?p0 = "p(0 := CreateLight (em_light em) (em_Le em) (em_pdfPos em * em_lightPdf em))"
  let ?b = "(em_AbsDot em / (em_lightPdf em * em_pdfPos em * em_pdfDir em)) *\<^sub>R em_Le em"
  from assms(1) False have "0 \<le> maxDepth - 1" by simp
  from RandomWalk_total[OF this assms(2), of J ?b "em_pdfDir em" Importance "advance ?p0"]
  obtain n q where
    r: "RandomWalk J W ?b (em_pdfDir em) (maxDepth - 1) Importance (advance ?p0) = Some (n, q)"
      "0 \<le> n" "n \<le> maxDepth - 1" "\<forall>k. k < - 1 \<or> n \<le> k \<longrightarrow> q k = advance ?p0 k"
    by blast
  have "correct_infinite E em n (retreat q) k = p k" if "k < 0 \<or> n + 1 \<le> k" for k
  proof -
    from that have "k - 1 < - 1 \<or> n \<le> k - 1" by auto
    with r(4) have "q (k - 1) = advance ?p0 (k - 1)" by blast
    moreover from that r(2) have "k \<noteq> 0" by auto
    ultimately have "retreat q k = p k" by (simp add: retreat_def advance_def)
    then show ?thesis by (simp add: correct_infinite_frame[OF r(2) that])
  qed
  with r False show ?thesis by (simp add: GenerateLightSubpath_def Let_def)
qed

lemma specular_iteration:
  assumes "RandomWalk_iteration J W maxDepth mode st = Again st'"
    and "specular_bounce (W (step_no st))" and "bounces st' = bounces st + 1"
  shows "vtype (path st' (bounces st)) = Surface \<and> delta (path st' (bounces st)) \<and>
         w_pdfFwd st' = 0 \<and> w_pdfRev st' = 0 \<and> pdfRev (path st' (bounces st - 1)) = 0"
  using assms
  by (auto simp add: RandomWalk_iteration_def specular_bounce_def Let_def set_prev_pdfRev_def
      ConvertDensity_def CreateSurface_def new_Vertex_def
      split: option.splits if_splits prod.splits)

lemma boundaries_end_specular_walk: "boundaries_end specular_walk"
proof -
  have "\<not> passes_boundary (specular_walk j)" for j
    by (simp add: passes_boundary_def specular_walk_def surface_hit_def)
  then show ?thesis unfolding boundaries_end_def by blast
qed

lemma first_iteration:
  "RandomWalk_iteration unit_Jacobian specular_walk 5 Radiance first_state =
     Again \<lparr>step_no = 1, bounces = 1, w_beta = 2, w_pdfFwd = 0, w_pdfRev = 0,
            path = (\<lambda>k. example_vertex)
              (0 := \<lparr>vtype = Surface, beta = 1, interaction = (), delta = True,
                       pdfFwd = 1, pdfRev = 0\<rparr>,
               - 1 := example_vertex\<lparr>pdfRev := 0\<rparr>)\<rparr>"
  by (simp add: RandomWalk_iteration_def specular_walk_def surface_hit_def first_state_def
      Let_def CreateSurface_def new_Vertex_def ConvertDensity_def set_prev_pdfRev_def
      CorrectShadingNormal_def unit_Jacobian_def)

lemma specular_walk_run:
  "map_option (\<lambda>(n, p'). (n, map p' [- 1, 0, 1, 2, 3]))
     (RandomWalk unit_Jacobian specular_walk 1 1 5 Radiance (\<lambda>k. example_vertex)) =
   Some (4, [example_vertex\<lparr>pdfRev := 0\<rparr>,
             \<lparr>vtype = Surface, beta = 1, interaction = (), delta = True, pdfFwd = 1, pdfRev = 1 / 4\<rparr>,
             \<lparr>vtype = Surface, beta = 2, interaction = (), delta = False, pdfFwd = 0, pdfRev = 1 / 4\<rparr>,
             \<lparr>vtype = Surface, beta = 4, interaction = (), delta = False, pdfFwd = 1 / 2, pdfRev = 0\<rparr>,
             \<lparr>vtype = Light, beta = 8, interaction = (), delta = False, pdfFwd = 1 / 2, pdfRev = 0\<rparr>])"
  apply (simp add: RandomWalk_def)
  apply (subst RandomWalk_loop.simps)
  apply (simp add: RandomWalk_iteration_def specular_walk_def surface_hit_def Let_def
      CreateSurface_def CreateLight_def new_Vertex_def ConvertDensity_def set_prev_pdfRev_def
      CorrectShadingNormal_def unit_Jacobian_def)
  apply (subst RandomWalk_loop.simps)
  apply (simp add: RandomWalk_iteration_def specular_walk_def surface_hit_def Let_def
      CreateSurface_def CreateLight_def new_Vertex_def ConvertDensity_def set_prev_pdfRev_def
      CorrectShadingNormal_def unit_Jacobian_def)
  apply (subst RandomWalk_loop.simps)
  apply (simp add: RandomWalk_iteration_def specular_walk_def surface_hit_def Let_def
      CreateSurface_def CreateLight_def new_Vertex_def ConvertDensity_def set_prev_pdfRev_def
      CorrectShadingNormal_def unit_Jacobian_def)
  apply (subst RandomWalk_loop.simps)
  apply (simp add: RandomWalk_iteration_def specular_walk_def surface_hit_def Let_def
      CreateSurface_def CreateLight_def new_Vertex_def ConvertDensity_def set_prev_pdfRev_def
      CorrectShadingNormal_def unit_Jacobian_def example_vertex_def)
  done

text \<open>
  C5 (as the code has it). For every \<open>maxDepth \<ge> 0\<close>, and provided the ray does not meet
  surfaces without a BSDF for ever, \<open>RandomWalk\<close> returns a bounce count \<open>n\<close> with
  \<open>0 \<le> n \<le> maxDepth\<close>; it leaves every entry of \<open>path\<close> from \<open>n\<close> on and every
  entry before \<open>path[-1]\<close> as it was, and of \<open>path[-1]\<close>, the vertex that its caller
  placed before the buffer it passes, it changes at most \<open>pdfRev\<close>. So
  \<open>GenerateCameraSubpath\<close>, called with \<open>maxDepth + 2\<close>, returns at most
  \<open>maxDepth + 2\<close> and writes only that many leading entries of its buffer, and
  \<open>GenerateLightSubpath\<close>, called with \<open>maxDepth + 1\<close>, at most \<open>maxDepth + 1\<close>.
\<close>

theorem RandomWalk_bounds:
  assumes "0 \<le> maxDepth" "boundaries_end W"
  shows "(\<exists>n p'. RandomWalk J W b pdf maxDepth mode p = Some (n, p') \<and> 0 \<le> n \<and> n \<le> maxDepth \<and>
            (\<forall>k. k < - 1 \<or> n \<le> k \<longrightarrow> p' k = p k) \<and>
            p' (- 1) = (p (- 1))\<lparr>pdfRev := pdfRev (p' (- 1))\<rparr>) \<and>
         (\<exists>nCamera c'. GenerateCameraSubpath J W (maxDepth + 2) ei bc pdfDir c = Some (nCamera, c') \<and>
            0 \<le> nCamera \<and> nCamera \<le> maxDepth + 2 \<and>
            (\<forall>k. k < 0 \<or> nCamera \<le> k \<longrightarrow> c' k = c k)) \<and>
         (\<exists>nLight l'. GenerateLightSubpath J W E (maxDepth + 1) em l = Some (nLight, l') \<and>
            0 \<le> nLight \<and> nLight \<le> maxDepth + 1 \<and>
            (\<forall>k. k < 0 \<or> nLight \<le> k \<longrightarrow> l' k = l k))"
proof -
  from assms(1) have d: "0 \<le> maxDepth + 2" "0 \<le> maxDepth + 1" by simp_all
  from RandomWalk_total[OF assms, of J b pdf mode p]
  have "\<exists>n p'. RandomWalk J W b pdf maxDepth mode p = Some (n, p') \<and> 0 \<le> n \<and> n \<le> maxDepth \<and>
            (\<forall>k. k < - 1 \<or> n \<le> k \<longrightarrow> p' k = p k) \<and>
            p' (- 1) = (p (- 1))\<lparr>pdfRev := pdfRev (p' (- 1))\<rparr>"
    by blast
  with GenerateCameraSubpath_total[OF d(1) assms(2), of J ei bc pdfDir c]
    GenerateLightSubpath_total[OF d(2) assms(2), of J E em l]
  show ?thesis by blast
qed

theorem RandomWalk_bounds_witness:
  "(0::int) \<le> 5 \<and> boundaries_end specular_walk \<and>
   (\<exists>n p'. RandomWalk unit_Jacobian specular_walk 1 1 5 Radiance (\<lambda>k. example_vertex) = Some (n, p') \<and>
      0 \<le> n \<and> n \<le> 5 \<and> (\<forall>k. k < - 1 \<or> n \<le> k \<longrightarrow> p' k = example_vertex) \<and>
      p' (- 1) = example_vertex\<lparr>pdfRev := pdfRev (p' (- 1))\<rparr>) \<and>
   (\<exists>nCamera c'. GenerateCameraSubpath unit_Jacobian specular_walk (5 + 2) () 1 1
        (\<lambda>k. example_vertex) = Some (nCamera, c') \<and>
      0 \<le> nCamera \<and> nCamera \<le> 5 + 2 \<and> (\<forall>k. k < 0 \<or> nCamera \<le> k \<longrightarrow> c' k = example_vertex)) \<and>
   (\<exists>nLight l'. GenerateLightSubpath unit_Jacobian specular_walk example_ops (5 + 1)
        example_emission (\<lambda>k. example_vertex) = Some (nLight, l') \<and>
      0 \<le> nLight \<and> nLight \<le> 5 + 1 \<and> (\<forall>k. k < 0 \<or> nLight \<le> k \<longrightarrow> l' k = example_vertex))"
  using boundaries_end_specular_walk
    RandomWalk_bounds [OF _ boundaries_end_specular_walk, of 5 unit_Jacobian 1 1 Radiance
      "\<lambda>k. example_vertex" "()" 1 1 "\<lambda>k. example_vertex" example_ops example_emission "\<lambda>k. example_vertex"]
  by simp

text \<open>
  C5 as stated fails: in the concrete walk \<open>RandomWalk\<close> returns 4, and the entry
  \<open>path[-1]\<close>, which is not among the first 4 entries of the buffer it was given, has
  changed (its \<open>pdfRev\<close> was 2 and is 0).
\<close>

theorem RandomWalk_writes_before_path:
  "map_option (\<lambda>(n, p'). (n, p' (- 1)))
     (RandomWalk unit_Jacobian specular_walk 1 1 5 Radiance (\<lambda>k. example_vertex)) =
     Some (4, example_vertex\<lparr>pdfRev := 0\<rparr>) \<and>
   example_vertex\<lparr>pdfRev := 0\<rparr> \<noteq> example_vertex"
proof -
  have "example_vertex\<lparr>pdfRev := 0\<rparr> \<noteq> example_vertex"
    by (simp add: example_vertex_def)
  moreover have "map_option (\<lambda>(n, p'). (n, p' (- 1)))
     (RandomWalk unit_Jacobian specular_walk 1 1 5 Radiance (\<lambda>k. example_vertex)) =
     Some (4, example_vertex\<lparr>pdfRev := 0\<rparr>)"
    using specular_walk_run by (auto simp add: map_option_case split: option.splits)
  ultimately show ?thesis by blast
qed

text \<open>
  C3 (as the code has it). An iteration of \<open>RandomWalk\<close> that samples a specular lobe at
  a surface vertex and goes on marks that vertex delta and sets the running densities
  \<open>pdfFwd\<close> and \<open>pdfRev\<close> of the walk to 0, so that 0 is stored as the \<open>pdfRev\<close> of the
  vertex before it. In the path that is returned (for \<open>maxDepth \<ge> 0\<close>, when the ray does
  not meet surfaces without a BSDF for ever), next to every vertex marked delta the
  \<open>pdfRev\<close> of its predecessor is 0 and the \<open>pdfFwd\<close> of its successor, the vertex
  reached through the specular event, is 0 if the walk created it.
\<close>

theorem specular_bounce_densities:
  assumes "0 \<le> maxDepth" "boundaries_end W"
  shows "(\<exists>n p'. RandomWalk J W b pdf maxDepth mode p = Some (n, p') \<and> delta_neighbours n p') \<and>
         (RandomWalk_iteration J W maxDepth mode st = Again st' \<and>
          specular_bounce (W (step_no st)) \<and> bounces st' = bounces st + 1 \<longrightarrow>
            vtype (path st' (bounces st)) = Surface \<and> delta (path st' (bounces st)) \<and>
            w_pdfFwd st' = 0 \<and> w_pdfRev st' = 0 \<and> pdfRev (path st' (bounces st - 1)) = 0)"
proof -
  from RandomWalk_total[OF assms, of J b pdf mode p]
  have "\<exists>n p'. RandomWalk J W b pdf maxDepth mode p = Some (n, p') \<and> delta_neighbours n p'"
    by blast
  then show ?thesis using specular_iteration[of J W maxDepth mode st st'] by blast
qed

theorem specular_bounce_densities_witness:
  "(0::int) \<le> 5 \<and> boundaries_end specular_walk \<and>
   (\<exists>n p'. RandomWalk unit_Jacobian specular_walk 1 1 5 Radiance (\<lambda>k. example_vertex) = Some (n, p') \<and>
      delta_neighbours n p') \<and>
   (\<exists>st'. RandomWalk_iteration unit_Jacobian specular_walk 5 Radiance first_state = Again st' \<and>
      specular_bounce (specular_walk (step_no first_state)) \<and>
      bounces st' = bounces first_state + 1 \<and>
      vtype (path st' (bounces first_state)) = Surface \<and> delta (path st' (bounces first_state)) \<and>
      w_pdfFwd st' = 0 \<and> w_pdfRev st' = 0 \<and> pdfRev (path st' (bounces first_state - 1)) = 0)"
proof -
  obtain st' where it: "RandomWalk_iteration unit_Jacobian specular_walk 5 Radiance first_state =
      Again st'" and b: "bounces st' = 1"
    using first_iteration by simp
  have sp: "specular_bounce (specular_walk (step_no first_state))"
    by (simp add: specular_bounce_def specular_walk_def surface_hit_def first_state_def)
  have b0: "bounces first_state = 0" by (simp add: first_state_def)
  show ?thesis
    using it sp b b0 boundaries_end_specular_walk
      specular_bounce_densities [OF _ boundaries_end_specular_walk, of 5 unit_Jacobian 1 1 Radiance
        "\<lambda>k. example_vertex" first_state st']
    by simp
qed

text \<open>
  C3 as stated fails under both readings of "reached through a specular event". In the
  concrete walk the lobe sampled at vertex 0 is specular. Vertex 0 is marked delta, but its
  \<open>pdfFwd\<close> is 1 and its \<open>pdfRev\<close> is 1/4; vertex 1, the vertex reached through that
  event, has \<open>pdfFwd\<close> 0, but it is not marked delta and its \<open>pdfRev\<close> is 1/4.
\<close>

theorem specular_vertex_keeps_densities:
  "map_option
     (\<lambda>(n, p'). (n, (delta (p' 0), pdfFwd (p' 0), pdfRev (p' 0)),
                     (delta (p' 1), pdfFwd (p' 1), pdfRev (p' 1))))
     (RandomWalk unit_Jacobian specular_walk 1 1 5 Radiance (\<lambda>k. example_vertex)) =
   Some (4, (True, 1, 1 / 4), (False, 0, 1 / 4))"
  using specular_walk_run by (auto simp add: map_option_case split: option.splits)

end
